theory Spec2Isabelle
  imports Complex_Main
begin

section \<open>JavaScript numbers and property values\<close>

text \<open>
  A JavaScript number is modelled as an exact rational or one of the three special values
  of IEEE-754 that the analyzers can produce by dividing by zero. Finite arithmetic is
  exact: the rounding and the overflow of doubles are not modelled, and zero carries no
  sign (a zero divisor behaves as the positive zero). The special values follow the IEEE
  rules: \<open>0/0\<close>, \<open>Infinity - Infinity\<close>, \<open>Infinity * 0\<close> and
  \<open>Infinity / Infinity\<close> are \<open>NaN\<close>, every operation on \<open>NaN\<close> is \<open>NaN\<close>, and every
  comparison with \<open>NaN\<close> is false.
\<close>

datatype jsnum = Fin rat | PInf | NInf | NaN

fun jneg :: "jsnum \<Rightarrow> jsnum" where
  "jneg (Fin a) = Fin (- a)"
| "jneg PInf = NInf"
| "jneg NInf = PInf"
| "jneg NaN = NaN"

fun jadd :: "jsnum \<Rightarrow> jsnum \<Rightarrow> jsnum" where
  "jadd NaN _ = NaN"
| "jadd _ NaN = NaN"
| "jadd (Fin a) (Fin b) = Fin (a + b)"
| "jadd PInf NInf = NaN"
| "jadd NInf PInf = NaN"
| "jadd PInf _ = PInf"
| "jadd NInf _ = NInf"
| "jadd (Fin a) PInf = PInf"
| "jadd (Fin a) NInf = NInf"

definition jsub :: "jsnum \<Rightarrow> jsnum \<Rightarrow> jsnum" where
  "jsub a b = jadd a (jneg b)"

text \<open>The sign of an infinite product or quotient, for a finite factor \<open>b\<close>.\<close>

definition signed_inf :: "bool \<Rightarrow> jsnum" where
  "signed_inf positive = (if positive then PInf else NInf)"

fun jmul :: "jsnum \<Rightarrow> jsnum \<Rightarrow> jsnum" where
  "jmul NaN _ = NaN"
| "jmul _ NaN = NaN"
| "jmul (Fin a) (Fin b) = Fin (a * b)"
| "jmul PInf (Fin b) = (if b = 0 then NaN else signed_inf (0 < b))"
| "jmul NInf (Fin b) = (if b = 0 then NaN else signed_inf (b < 0))"
| "jmul (Fin a) PInf = (if a = 0 then NaN else signed_inf (0 < a))"
| "jmul (Fin a) NInf = (if a = 0 then NaN else signed_inf (a < 0))"
| "jmul PInf PInf = PInf"
| "jmul NInf NInf = PInf"
| "jmul PInf NInf = NInf"
| "jmul NInf PInf = NInf"

fun jdiv :: "jsnum \<Rightarrow> jsnum \<Rightarrow> jsnum" where
  "jdiv NaN _ = NaN"
| "jdiv _ NaN = NaN"
| "jdiv (Fin a) (Fin b) =
     (if b = 0 then (if a = 0 then NaN else signed_inf (0 < a)) else Fin (a / b))"
| "jdiv (Fin a) PInf = Fin 0"
| "jdiv (Fin a) NInf = Fin 0"
| "jdiv PInf (Fin b) = signed_inf (0 \<le> b)"
| "jdiv NInf (Fin b) = signed_inf (b < 0)"
| "jdiv PInf _ = NaN"
| "jdiv NInf _ = NaN"

fun jabs :: "jsnum \<Rightarrow> jsnum" where
  "jabs (Fin a) = Fin \<bar>a\<bar>"
| "jabs PInf = PInf"
| "jabs NInf = PInf"
| "jabs NaN = NaN"

text \<open>The comparisons \<open>a > b\<close> and \<open>a >= b\<close> of JavaScript; \<open>a < b\<close> is \<open>jgt b a\<close>.\<close>

fun jgt :: "jsnum \<Rightarrow> jsnum \<Rightarrow> bool" where
  "jgt NaN _ = False"
| "jgt _ NaN = False"
| "jgt (Fin a) (Fin b) = (b < a)"
| "jgt PInf PInf = False"
| "jgt PInf _ = True"
| "jgt NInf _ = False"
| "jgt (Fin a) PInf = False"
| "jgt (Fin a) NInf = True"

fun jge :: "jsnum \<Rightarrow> jsnum \<Rightarrow> bool" where
  "jge NaN _ = False"
| "jge _ NaN = False"
| "jge (Fin a) (Fin b) = (b \<le> a)"
| "jge PInf _ = True"
| "jge NInf NInf = True"
| "jge NInf _ = False"
| "jge (Fin a) PInf = False"
| "jge (Fin a) NInf = True"

definition jlt :: "jsnum \<Rightarrow> jsnum \<Rightarrow> bool" where
  "jlt a b = jgt b a"

text \<open>\<open>Math.round\<close>: the nearest integer, a tie going up.\<close>

fun jround :: "jsnum \<Rightarrow> jsnum" where
  "jround (Fin a) = Fin (of_int \<lfloor>a + 1 / 2\<rfloor>)"
| "jround x = x"

text \<open>
  The value of a numeric property of a bill: a number or \<open>null\<close> (what the extraction
  prompt asks for when a field cannot be determined). A sub-object is a map from property
  names to values; reading a property gives \<open>None\<close> for \<open>undefined\<close>, the key being
  absent. Text-valued sub-objects (account information, billing period) hold strings too.
\<close>

datatype numval = Null | Num jsnum

datatype jsval = JNull | JNum jsnum | JStr string

type_synonym 'v obj = "string \<rightharpoonup> 'v"

text \<open>\<open>ToNumber\<close>: \<open>undefined\<close> is \<open>NaN\<close>, \<open>null\<close> is \<open>0\<close>.\<close>

fun toNumber :: "numval option \<Rightarrow> jsnum" where
  "toNumber None = NaN"
| "toNumber (Some Null) = Fin 0"
| "toNumber (Some (Num n)) = n"

text \<open>\<open>ToBoolean\<close>: \<open>undefined\<close>, \<open>null\<close>, \<open>0\<close> and \<open>NaN\<close> are falsy.\<close>

fun truthy :: "numval option \<Rightarrow> bool" where
  "truthy None = False"
| "truthy (Some Null) = False"
| "truthy (Some (Num n)) = (n \<noteq> Fin 0 \<and> n \<noteq> NaN)"

text \<open>\<open>a || b\<close> yields \<open>a\<close> when it is truthy and \<open>b\<close> otherwise.\<close>

definition jor :: "numval option \<Rightarrow> numval option \<Rightarrow> numval option" where
  "jor a b = (if truthy a then a else b)"

section \<open>The bill record\<close>

text \<open>
  The sub-objects of a bill record are optional: \<open>None\<close> stands for a sub-object that is
  absent or \<open>null\<close>, which the code cannot tell apart where it reads them (a truthiness
  test, an optional chain, or a property read that throws a \<open>TypeError\<close> on both).
\<close>

record comparisons =
  previousMonth :: "numval obj option"
  yearAgo :: "numval obj option"

record bill =
  accountInfo :: "jsval obj option"
  billingPeriod :: "jsval obj option"
  charges :: "numval obj option"
  usage :: "numval obj option"
  rates :: "numval obj option"
  comparisons :: "comparisons option"
  validationWarnings :: "string list option"

datatype error = TypeError

section \<open>services/anomalyDetector.js\<close>

record thresholds =
  mild :: jsnum
  moderate :: jsnum
  severe :: jsnum

definition usage_thresholds :: thresholds where
  "usage_thresholds = \<lparr>mild = Fin 15, moderate = Fin 25, severe = Fin 40\<rparr>"

definition cost_thresholds :: thresholds where
  "cost_thresholds = \<lparr>mild = Fin 20, moderate = Fin 35, severe = Fin 50\<rparr>"

text \<open>
  An anomaly. Its \<open>description\<close> (a sentence holding the change formatted by
  \<open>toFixed(1)\<close>) is left out: no analyzer reads it back.
\<close>

record anomaly =
  atype :: string
  severity :: string
  title :: string
  impact :: jsnum
  recommendations :: "string list"

definition getSeverity :: "jsnum \<Rightarrow> thresholds \<Rightarrow> string" where
  "getSeverity v t =
     (if jge v (severe t) then ''severe''
      else if jge v (moderate t) then ''moderate''
      else ''mild'')"

definition getUsageRecommendations :: "jsnum \<Rightarrow> string list" where
  "getUsageRecommendations change =
     (if jgt change (Fin 0)
      then [''Check for malfunctioning appliances'', ''Review HVAC system efficiency'',
            ''Monitor daily usage patterns'', ''Consider energy audit'']
      else [''Great job on reducing consumption!'', ''Continue current practices'',
            ''Monitor for any service issues''])"

definition getCostRecommendations :: "jsnum \<Rightarrow> string list" where
  "getCostRecommendations change =
     (if jgt change (Fin 0)
      then [''Review rate changes'', ''Analyze usage patterns'',
            ''Check for billing errors'', ''Consider dispute if necessary'']
      else [''Excellent cost management!'', ''Review what caused the decrease'',
            ''Apply successful strategies consistently''])"

definition getPeakRecommendations :: "string list" where
  "getPeakRecommendations =
     [''Shift appliance usage to off-peak hours'', ''Use programmable timers'',
      ''Consider time-of-use rate plans'', ''Optimize heating/cooling schedules'']"

text \<open>
  The percentage change both detectors compute from the current value and the previous
  month's: \<open>previous = previousMonth?.field || current\<close>, then
  \<open>((current - previous) / previous) * 100\<close>.
\<close>

definition previous_or_current :: "comparisons \<Rightarrow> string \<Rightarrow> numval option \<Rightarrow> numval option" where
  "previous_or_current c field current =
     jor (case previousMonth c of None \<Rightarrow> None | Some p \<Rightarrow> p field) current"

definition percent_change :: "numval option \<Rightarrow> numval option \<Rightarrow> jsnum" where
  "percent_change current previous =
     jmul (jdiv (jsub (toNumber current) (toNumber previous)) (toNumber previous)) (Fin 100)"

definition detectUsageAnomalies :: "bill \<Rightarrow> error + anomaly list" where
  "detectUsageAnomalies b =
     (case usage b of None \<Rightarrow> Inl TypeError | Some u \<Rightarrow>
      (case comparisons b of None \<Rightarrow> Inl TypeError | Some c \<Rightarrow>
        (let current = u ''totalKwh'';
             previous = previous_or_current c ''usage'' current;
             change = percent_change current previous
         in Inr (if jgt (jabs change) (mild usage_thresholds)
                 then [\<lparr>atype = ''usage_anomaly'',
                         severity = getSeverity (jabs change) usage_thresholds,
                         title = (if jgt change (Fin 0) then ''Increased'' else ''Decreased'')
                                 @ '' Usage Pattern'',
                         impact = jabs change,
                         recommendations = getUsageRecommendations change\<rparr>]
                 else []))))"

definition detectCostAnomalies :: "bill \<Rightarrow> error + anomaly list" where
  "detectCostAnomalies b =
     (case charges b of None \<Rightarrow> Inl TypeError | Some ch \<Rightarrow>
      (case comparisons b of None \<Rightarrow> Inl TypeError | Some c \<Rightarrow>
        (let current = ch ''totalAmount'';
             previous = previous_or_current c ''amount'' current;
             change = percent_change current previous
         in Inr (if jgt (jabs change) (mild cost_thresholds)
                 then [\<lparr>atype = ''cost_anomaly'',
                         severity = getSeverity (jabs change) cost_thresholds,
                         title = (if jgt change (Fin 0) then ''Higher'' else ''Lower'')
                                 @ '' Bill Amount'',
                         impact = jabs change,
                         recommendations = getCostRecommendations change\<rparr>]
                 else []))))"

definition detectPatternAnomalies :: "bill \<Rightarrow> error + anomaly list" where
  "detectPatternAnomalies b =
     (case usage b of None \<Rightarrow> Inl TypeError | Some u \<Rightarrow>
        Inr (if truthy (u ''peakKwh'') \<and> truthy (u ''totalKwh'')
             then (let peakRatio =
                         jmul (jdiv (toNumber (u ''peakKwh'')) (toNumber (u ''totalKwh''))) (Fin 100)
                   in if jgt peakRatio (Fin 40)
                      then [\<lparr>atype = ''peak_usage_anomaly'',
                              severity = (if jgt peakRatio (Fin 50) then ''severe'' else ''moderate''),
                              title = ''High Peak Usage Pattern'',
                              impact = peakRatio,
                              recommendations = getPeakRecommendations\<rparr>]
                      else [])
             else []))"

text \<open>
  \<open>Array.prototype.sort\<close> with a comparison function: the sort is stable, an element
  moves before another only when the comparison is negative, and a comparison that is
  \<open>NaN\<close> counts as \<open>0\<close>. The model is the stable insertion sort: an element passes the
  ones the comparison puts strictly before it.
\<close>

fun insert_by :: "('a \<Rightarrow> 'a \<Rightarrow> jsnum) \<Rightarrow> 'a \<Rightarrow> 'a list \<Rightarrow> 'a list" where
  "insert_by cmp x [] = [x]"
| "insert_by cmp x (y # ys) =
     (if jgt (cmp x y) (Fin 0) then y # insert_by cmp x ys else x # y # ys)"

definition sort_by :: "('a \<Rightarrow> 'a \<Rightarrow> jsnum) \<Rightarrow> 'a list \<Rightarrow> 'a list" where
  "sort_by cmp xs = foldr (insert_by cmp) xs []"

text \<open>A lookup in an object literal used as a table: \<open>undefined\<close> for a missing key.\<close>

definition severityOrder :: "string \<Rightarrow> numval option" where
  "severityOrder = map_of [(''severe'', Num (Fin 3)), (''moderate'', Num (Fin 2)),
                           (''mild'', Num (Fin 1))]"

definition prioritizeAnomalies :: "anomaly list \<Rightarrow> anomaly list" where
  "prioritizeAnomalies anomalies =
     sort_by (\<lambda>a b. jsub (toNumber (severityOrder (severity b)))
                         (toNumber (severityOrder (severity a)))) anomalies"

definition detectAnomalies :: "bill \<Rightarrow> error + anomaly list" where
  "detectAnomalies b =
     (case (if usage b \<noteq> None \<and> comparisons b \<noteq> None
            then detectUsageAnomalies b else Inr []) of
        Inl e \<Rightarrow> Inl e
      | Inr usageAnomalies \<Rightarrow>
     (case (if charges b \<noteq> None \<and> comparisons b \<noteq> None
            then detectCostAnomalies b else Inr []) of
        Inl e \<Rightarrow> Inl e
      | Inr costAnomalies \<Rightarrow>
     (case detectPatternAnomalies b of
        Inl e \<Rightarrow> Inl e
      | Inr patternAnomalies \<Rightarrow>
          Inr (prioritizeAnomalies (usageAnomalies @ costAnomalies @ patternAnomalies)))))"

section \<open>services/predictiveAnalyzer.js\<close>

record next_month =
  nm_usage :: jsnum
  nm_amount :: jsnum
  nm_confidence :: jsnum
  nm_factors :: "string list"

record quarter =
  q_month :: nat
  q_usage :: jsnum
  q_amount :: jsnum

record breakdown =
  energy :: jsnum
  delivery :: jsnum
  fees :: jsnum

record annual =
  estimatedTotal :: jsnum
  an_breakdown :: breakdown
  an_confidence :: jsnum

record seasonal_entry =
  season :: string
  factor :: "numval option"
  estimatedAmount :: jsnum

record predictions =
  nextMonth :: "next_month option"
  quarterly :: "quarter list"
  annual :: annual
  seasonal :: "seasonal_entry list option"

definition seasonalFactors :: "string \<Rightarrow> numval option" where
  "seasonalFactors = map_of [(''winter'', Num (Fin 1.3)), (''spring'', Num (Fin 0.9)),
                             (''summer'', Num (Fin 1.4)), (''fall'', Num (Fin 1.0))]"

text \<open>\<open>Math.round(x * 100) / 100\<close>, the rounding to cents.\<close>

definition round_cents :: "jsnum \<Rightarrow> jsnum" where
  "round_cents x = jdiv (jround (jmul x (Fin 100))) (Fin 100)"

definition calculateTrend :: "bill \<Rightarrow> error + jsnum" where
  "calculateTrend b =
     (case comparisons b of None \<Rightarrow> Inr (Fin 0.02) | Some c \<Rightarrow>
      (case previousMonth c of None \<Rightarrow> Inr (Fin 0.02) | Some p \<Rightarrow>
       (case charges b of None \<Rightarrow> Inl TypeError | Some ch \<Rightarrow>
          (let current = toNumber (ch ''totalAmount'');
               previous = toNumber (p ''amount'')
           in Inr (jdiv (jsub current previous) previous)))))"

definition predictNextMonth :: "bill \<Rightarrow> error + next_month" where
  "predictNextMonth b =
     (case usage b of None \<Rightarrow> Inl TypeError | Some u \<Rightarrow>
      (case charges b of None \<Rightarrow> Inl TypeError | Some ch \<Rightarrow>
       (case calculateTrend b of Inl e \<Rightarrow> Inl e | Inr trend \<Rightarrow>
          (let currentUsage = toNumber (u ''totalKwh'');
               currentAmount = toNumber (ch ''totalAmount'');
               predictedUsage = jmul currentUsage (jadd (Fin 1) trend);
               predictedAmount = jmul currentAmount (jadd (Fin 1) trend)
           in Inr \<lparr>nm_usage = jround predictedUsage,
                    nm_amount = round_cents predictedAmount,
                    nm_confidence = Fin 0.85,
                    nm_factors = [''historical trend'', ''seasonal adjustment'',
                                  ''usage patterns'']\<rparr>))))"

text \<open>
  \<open>getSeasonalFactor\<close> reads the clock; the month of \<open>new Date()\<close> (0 for January) is
  the parameter \<open>currentMonth\<close>.
\<close>

definition getSeasonalFactor :: "nat \<Rightarrow> nat \<Rightarrow> numval option" where
  "getSeasonalFactor currentMonth monthsAhead =
     (let futureMonth = (currentMonth + monthsAhead) mod 12
      in if futureMonth \<ge> 11 \<or> futureMonth \<le> 1 then seasonalFactors ''winter''
         else if futureMonth \<ge> 2 \<and> futureMonth \<le> 4 then seasonalFactors ''spring''
         else if futureMonth \<ge> 5 \<and> futureMonth \<le> 8 then seasonalFactors ''summer''
         else seasonalFactors ''fall'')"

definition predictQuarterly :: "nat \<Rightarrow> bill \<Rightarrow> error + quarter list" where
  "predictQuarterly currentMonth b =
     (case usage b of None \<Rightarrow> Inl TypeError | Some u \<Rightarrow>
      (case charges b of None \<Rightarrow> Inl TypeError | Some ch \<Rightarrow>
         (let baseUsage = toNumber (u ''totalKwh'');
              baseAmount = toNumber (ch ''totalAmount'')
          in Inr (map (\<lambda>i. let seasonalFactor = toNumber (getSeasonalFactor currentMonth i)
                            in \<lparr>q_month = i,
                                q_usage = jround (jmul baseUsage seasonalFactor),
                                q_amount = round_cents (jmul baseAmount seasonalFactor)\<rparr>)
                      [1, 2, 3]))))"

definition predictAnnual :: "bill \<Rightarrow> error + annual" where
  "predictAnnual b =
     (case charges b of None \<Rightarrow> Inl TypeError | Some ch \<Rightarrow>
        (let monthlyAverage = toNumber (ch ''totalAmount'');
             annualEstimate = jmul monthlyAverage (Fin 12)
         in Inr \<lparr>estimatedTotal = round_cents annualEstimate,
                  an_breakdown = \<lparr>energy = round_cents (jmul annualEstimate (Fin 0.7)),
                                  delivery = round_cents (jmul annualEstimate (Fin 0.15)),
                                  fees = round_cents (jmul annualEstimate (Fin 0.15))\<rparr>,
                  an_confidence = Fin 0.75\<rparr>))"

definition predictSeasonal :: "bill \<Rightarrow> error + seasonal_entry list" where
  "predictSeasonal b =
     (case charges b of None \<Rightarrow> Inl TypeError | Some ch \<Rightarrow>
        (let baseAmount = toNumber (ch ''totalAmount'')
         in Inr (map (\<lambda>s. \<lparr>season = s,
                            factor = seasonalFactors s,
                            estimatedAmount =
                              round_cents (jmul baseAmount (toNumber (seasonalFactors s)))\<rparr>)
                     [''winter'', ''spring'', ''summer'', ''fall''])))"

definition generatePredictions :: "nat \<Rightarrow> bill \<Rightarrow> error + predictions" where
  "generatePredictions currentMonth b =
     (case predictNextMonth b of Inl e \<Rightarrow> Inl e | Inr nm \<Rightarrow>
      (case predictQuarterly currentMonth b of Inl e \<Rightarrow> Inl e | Inr q \<Rightarrow>
       (case predictAnnual b of Inl e \<Rightarrow> Inl e | Inr a \<Rightarrow>
        (case predictSeasonal b of Inl e \<Rightarrow> Inl e | Inr s \<Rightarrow>
           Inr \<lparr>nextMonth = Some nm, quarterly = q, annual = a, seasonal = Some s\<rparr>))))"

section \<open>services/recommendationEngine.js\<close>

text \<open>
  A recommendation. The \<open>description\<close> sentence is left out, as for an anomaly; the
  remaining fields are the source's (\<open>rec_title\<close> and \<open>rec_impact\<close> are its \<open>title\<close>
  and \<open>impact\<close>).
\<close>

record recommendation =
  rec_title :: string
  category :: string
  priority :: string
  savings :: jsnum
  actions :: "string list"
  timeline :: string
  rec_impact :: string

record buckets =
  immediate :: "recommendation list"
  shortTerm :: "recommendation list"
  longTerm :: "recommendation list"

text \<open>\<open>x || d\<close> for a number \<open>x\<close>: \<open>d\<close> when \<open>x\<close> is \<open>0\<close> or \<open>NaN\<close>.\<close>

definition num_or :: "jsnum \<Rightarrow> jsnum \<Rightarrow> jsnum" where
  "num_or x d = (if x \<noteq> Fin 0 \<and> x \<noteq> NaN then x else d)"

definition savingsMultiplier :: "string \<Rightarrow> numval option" where
  "savingsMultiplier = map_of [(''severe'', Num (Fin 0.25)), (''moderate'', Num (Fin 0.15)),
                               (''mild'', Num (Fin 0.05)), (''high'', Num (Fin 0.2)),
                               (''medium'', Num (Fin 0.1)), (''low'', Num (Fin 0.05))]"

text \<open>
  An anomaly has no \<open>priority\<close> property, so the second lookup of the source,
  \<open>savingsMultiplier[anomaly.priority]\<close>, is \<open>undefined\<close>.
\<close>

definition calculateSavings :: "anomaly \<Rightarrow> jsnum" where
  "calculateSavings a =
     (let multiplier = toNumber (jor (savingsMultiplier (severity a))
                                     (jor None (Some (Num (Fin 0.1)))))
      in jmul (num_or (impact a) (Fin 100)) multiplier)"

definition generateAnomalyRecommendations :: "anomaly list \<Rightarrow> recommendation list" where
  "generateAnomalyRecommendations anomalies =
     map (\<lambda>a. \<lparr>rec_title = ''Address '' @ title a,
                category = ''anomaly_response'',
                priority = severity a,
                savings = calculateSavings a,
                actions = recommendations a,
                timeline = ''1-7 days'',
                rec_impact = ''high''\<rparr>) anomalies"

definition generateUsageRecommendations :: "bill \<Rightarrow> error + recommendation list" where
  "generateUsageRecommendations b =
     (case usage b of None \<Rightarrow> Inl TypeError | Some u \<Rightarrow>
      (case charges b of None \<Rightarrow> Inl TypeError | Some ch \<Rightarrow>
         (let totalAmount = toNumber (ch ''totalAmount'')
          in Inr
            ((if jgt (toNumber (u ''totalKwh'')) (Fin 1000)
              then [\<lparr>rec_title = ''Energy Efficiency Audit'', category = ''efficiency'',
                      priority = ''high'', savings = jmul totalAmount (Fin 0.2),
                      actions = [''Schedule professional energy audit'',
                                 ''Identify major inefficiencies'',
                                 ''Implement recommended fixes'', ''Monitor improvements''],
                      timeline = ''2-4 weeks'', rec_impact = ''high''\<rparr>]
              else []) @
             (if truthy (u ''peakKwh'') \<and> truthy (u ''totalKwh'') \<and>
                 jgt (jmul (jdiv (toNumber (u ''peakKwh'')) (toNumber (u ''totalKwh'')))
                           (Fin 100)) (Fin 35)
              then [\<lparr>rec_title = ''Peak Usage Optimization'', category = ''scheduling'',
                      priority = ''medium'', savings = jmul totalAmount (Fin 0.15),
                      actions = [''Shift appliance usage to off-peak hours'',
                                 ''Install programmable timers'',
                                 ''Use smart home automation'',
                                 ''Monitor peak usage patterns''],
                      timeline = ''1-2 weeks'', rec_impact = ''medium''\<rparr>]
              else []) @
             [\<lparr>rec_title = ''Smart Thermostat Installation'', category = ''equipment'',
                priority = ''medium'', savings = jmul totalAmount (Fin 0.12),
                actions = [''Research smart thermostat options'',
                           ''Professional installation'', ''Configure optimal schedules'',
                           ''Monitor energy savings''],
                timeline = ''1-3 weeks'', rec_impact = ''medium''\<rparr>]))))"

definition generateCostOptimizationRecommendations :: "bill \<Rightarrow> error + recommendation list" where
  "generateCostOptimizationRecommendations b =
     (case charges b of None \<Rightarrow> Inl TypeError | Some ch \<Rightarrow>
        (let totalAmount = toNumber (ch ''totalAmount'')
         in Inr
           [\<lparr>rec_title = ''Rate Plan Analysis'', category = ''rate_optimization'',
              priority = ''medium'', savings = jmul totalAmount (Fin 0.1),
              actions = [''Review current rate plan details'',
                         ''Compare with available alternatives'',
                         ''Calculate potential savings'',
                         ''Switch to optimal plan if beneficial''],
              timeline = ''1-2 months'', rec_impact = ''medium''\<rparr>,
            \<lparr>rec_title = ''Appliance Efficiency Review'', category = ''equipment'',
              priority = ''low'', savings = jmul totalAmount (Fin 0.08),
              actions = [''Audit current appliances'', ''Identify energy-hungry devices'',
                         ''Research efficient replacements'', ''Plan staged upgrades''],
              timeline = ''3-12 months'', rec_impact = ''low''\<rparr>,
            \<lparr>rec_title = ''Home Insulation Assessment'', category = ''insulation'',
              priority = ''low'', savings = jmul totalAmount (Fin 0.15),
              actions = [''Professional insulation audit'', ''Identify improvement areas'',
                         ''Get quotes for upgrades'', ''Implement improvements''],
              timeline = ''2-6 months'', rec_impact = ''high''\<rparr>]))"

definition generatePredictiveRecommendations :: "predictions \<Rightarrow> recommendation list" where
  "generatePredictiveRecommendations p =
     (if (case nextMonth p of None \<Rightarrow> False
          | Some nm \<Rightarrow> jgt (nm_amount nm) (jmul (nm_amount nm) (Fin 1.1)))
      then [\<lparr>rec_title = ''Prepare for Higher Bills'', category = ''budgeting'',
              priority = ''medium'', savings = Fin 0,
              actions = [''Adjust monthly budget'', ''Reduce discretionary usage'',
                         ''Monitor daily consumption'',
                         ''Implement immediate savings measures''],
              timeline = ''This month'', rec_impact = ''medium''\<rparr>]
      else []) @
     (case seasonal p of None \<Rightarrow> [] | Some entries \<Rightarrow>
        (let highSeasons = filter (\<lambda>s. jgt (toNumber (factor s)) (Fin 1.2)) entries
         in if length highSeasons > 0
            then [\<lparr>rec_title = ''Seasonal Usage Preparation'',
                    category = ''seasonal_planning'',
                    priority = ''low'',
                    savings = num_or (jmul (case nextMonth p of None \<Rightarrow> NaN
                                            | Some nm \<Rightarrow> nm_amount nm) (Fin 0.1)) (Fin 0),
                    actions = [''Plan seasonal energy strategies'',
                               ''Schedule equipment maintenance'',
                               ''Adjust budget for high-usage seasons'',
                               ''Implement preventive measures''],
                    timeline = ''1-3 months'', rec_impact = ''medium''\<rparr>]
            else []))"

definition priorityOrder :: "string \<Rightarrow> numval option" where
  "priorityOrder = map_of [(''high'', Num (Fin 3)), (''medium'', Num (Fin 2)),
                           (''low'', Num (Fin 1))]"

text \<open>The comparison function that \<open>prioritizeRecommendations\<close> passes to \<open>sort\<close>.\<close>

definition compareRecommendations :: "recommendation \<Rightarrow> recommendation \<Rightarrow> jsnum" where
  "compareRecommendations a b =
     (let priorityDiff = jsub (toNumber (priorityOrder (priority b)))
                              (toNumber (priorityOrder (priority a)))
      in if priorityDiff \<noteq> Fin 0 then priorityDiff
         else jsub (num_or (savings b) (Fin 0)) (num_or (savings a) (Fin 0)))"

definition prioritizeRecommendations :: "buckets \<Rightarrow> buckets" where
  "prioritizeRecommendations r =
     \<lparr>immediate = sort_by compareRecommendations (immediate r),
      shortTerm = sort_by compareRecommendations (shortTerm r),
      longTerm = sort_by compareRecommendations (longTerm r)\<rparr>"

text \<open>
  \<open>anomalies\<close> and \<open>predictions\<close> may be missing: an empty list stands for a missing or
  empty array of anomalies (both skip the first step), \<open>None\<close> for missing predictions.
\<close>

definition generateRecommendations ::
    "bill \<Rightarrow> anomaly list \<Rightarrow> predictions option \<Rightarrow> error + buckets" where
  "generateRecommendations b anomalies preds =
     (let imm = (if length anomalies > 0 then generateAnomalyRecommendations anomalies else [])
      in case (if usage b \<noteq> None then generateUsageRecommendations b else Inr []) of
           Inl e \<Rightarrow> Inl e
         | Inr short1 \<Rightarrow>
        (case (if charges b \<noteq> None then generateCostOptimizationRecommendations b
               else Inr []) of
           Inl e \<Rightarrow> Inl e
         | Inr long \<Rightarrow>
             (let short2 = (case preds of None \<Rightarrow> []
                            | Some p \<Rightarrow> generatePredictiveRecommendations p)
              in Inr (prioritizeRecommendations
                        \<lparr>immediate = imm, shortTerm = short1 @ short2, longTerm = long\<rparr>))))"

section \<open>services/patternAnalyzer.js\<close>

text \<open>
  \<open>calculateEfficiency\<close> returns the cost per kWh of a bill that has a \<open>usage\<close>
  sub-object and returns its argument unchanged otherwise, so its result is a number or
  the bill itself.
\<close>

datatype efficiency = EffNum jsnum | EffBill bill

definition calculateEfficiency :: "bill \<Rightarrow> error + efficiency" where
  "calculateEfficiency b =
     (case usage b of
        Some u \<Rightarrow>
          (case charges b of None \<Rightarrow> Inl TypeError
           | Some ch \<Rightarrow> Inr (EffNum (jdiv (toNumber (ch ''totalAmount''))
                                          (toNumber (u ''totalKwh'')))))
      | None \<Rightarrow> Inr (EffBill b))"

definition calculateUsageTrend :: "bill \<Rightarrow> error + jsnum" where
  "calculateUsageTrend b =
     (case comparisons b of None \<Rightarrow> Inr (Fin 0) | Some c \<Rightarrow>
      (case previousMonth c of None \<Rightarrow> Inr (Fin 0) | Some p \<Rightarrow>
       (case usage b of None \<Rightarrow> Inl TypeError | Some u \<Rightarrow>
          (let current = toNumber (u ''totalKwh'');
               previous = toNumber (p ''usage'')
           in Inr (jmul (jdiv (jsub current previous) previous) (Fin 100))))))"

definition classifyUsagePattern :: "jsnum \<Rightarrow> string" where
  "classifyUsagePattern u =
     (if jlt u (Fin 600) then ''low''
      else if jlt u (Fin 1000) then ''average''
      else if jlt u (Fin 1500) then ''high''
      else ''very_high'')"

definition getUsagePatternRecommendations :: "jsnum \<Rightarrow> jsnum \<Rightarrow> string list" where
  "getUsagePatternRecommendations u peakRatio =
     (if jgt u (Fin 1200) then [''Consider energy audit for high usage''] else []) @
     (if jgt peakRatio (Fin 0.4) then [''Shift usage to off-peak hours''] else [])"

record usage_pattern =
  totalUsage :: "numval option"
  peakRatio :: jsnum
  offPeakRatio :: jsnum
  dailyAverage :: jsnum
  up_efficiency :: efficiency
  up_trend :: jsnum
  classification :: string
  up_recommendations :: "string list"

definition analyzeUsagePatterns :: "bill \<Rightarrow> error + usage_pattern" where
  "analyzeUsagePatterns b =
     (case usage b of None \<Rightarrow> Inl TypeError | Some u \<Rightarrow>
        (let usage_v = toNumber (u ''totalKwh'');
             peakUsage = toNumber (jor (u ''peakKwh'') (Some (Num (Fin 0))));
             offPeakUsage = (if truthy (u ''offPeakKwh'') then toNumber (u ''offPeakKwh'')
                             else jsub usage_v peakUsage)
         in case calculateEfficiency b of Inl e \<Rightarrow> Inl e | Inr eff \<Rightarrow>
            (case calculateUsageTrend b of Inl e \<Rightarrow> Inl e | Inr tr \<Rightarrow>
               Inr \<lparr>totalUsage = u ''totalKwh'',
                    peakRatio = jmul (jdiv peakUsage usage_v) (Fin 100),
                    offPeakRatio = jmul (jdiv offPeakUsage usage_v) (Fin 100),
                    dailyAverage = jdiv usage_v (Fin 30),
                    up_efficiency = eff,
                    up_trend = tr,
                    classification = classifyUsagePattern usage_v,
                    up_recommendations =
                      getUsagePatternRecommendations usage_v (jdiv peakUsage usage_v)\<rparr>)))"

section \<open>services/documentProcessor.js\<close>

definition mock_accountInfo :: "jsval obj" where
  "mock_accountInfo =
     [''accountNumber'' \<mapsto> JStr ''****-****-1234'',
      ''customerName'' \<mapsto> JStr ''John Doe'',
      ''serviceAddress'' \<mapsto> JStr ''123 Main Street, City, State 12345'',
      ''billingAddress'' \<mapsto> JStr ''123 Main Street, City, State 12345'']"

definition mock_billingPeriod :: "jsval obj" where
  "mock_billingPeriod =
     [''startDate'' \<mapsto> JStr ''2024-01-15'', ''endDate'' \<mapsto> JStr ''2024-02-14'',
      ''daysInPeriod'' \<mapsto> JNum (Fin 30)]"

definition mock_charges :: "numval obj" where
  "mock_charges =
     [''totalAmount'' \<mapsto> Num (Fin 190.00), ''baseCharge'' \<mapsto> Num (Fin 24.99),
      ''energyCharges'' \<mapsto> Num (Fin 101.64), ''deliveryCharges'' \<mapsto> Num (Fin 15.75),
      ''taxes'' \<mapsto> Num (Fin 8.45), ''fees'' \<mapsto> Num (Fin 3.50),
      ''adjustments'' \<mapsto> Num (Fin 0)]"

definition mock_usage :: "numval obj" where
  "mock_usage =
     [''totalKwh'' \<mapsto> Num (Fin 847), ''peakKwh'' \<mapsto> Num (Fin 296),
      ''offPeakKwh'' \<mapsto> Num (Fin 551), ''demandKw'' \<mapsto> Num (Fin 8.5)]"

definition mock_rates :: "numval obj" where
  "mock_rates =
     [''energyRate'' \<mapsto> Num (Fin 0.12), ''peakRate'' \<mapsto> Num (Fin 0.18),
      ''offPeakRate'' \<mapsto> Num (Fin 0.09), ''demandRate'' \<mapsto> Num (Fin 12.50)]"

definition mock_comparisons :: comparisons where
  "mock_comparisons =
     \<lparr>previousMonth = Some [''usage'' \<mapsto> Num (Fin 654), ''amount'' \<mapsto> Num (Fin 145.32)],
      yearAgo = Some [''usage'' \<mapsto> Num (Fin 723), ''amount'' \<mapsto> Num (Fin 158.67)]\<rparr>"

definition generateMockStructuredData :: bill where
  "generateMockStructuredData =
     \<lparr>accountInfo = Some mock_accountInfo,
      billingPeriod = Some mock_billingPeriod,
      charges = Some mock_charges,
      usage = Some mock_usage,
      rates = Some mock_rates,
      comparisons = Some mock_comparisons,
      validationWarnings = None\<rparr>"

text \<open>
  The object spread \<open>{...defaults, ...given}\<close>: every property of \<open>given\<close> wins, every
  other property comes from \<open>defaults\<close>; a missing \<open>given\<close> spreads nothing.
\<close>

definition spread :: "'v obj option \<Rightarrow> 'v obj option \<Rightarrow> 'v obj" where
  "spread defaults given =
     (case defaults of None \<Rightarrow> Map.empty | Some m \<Rightarrow> m) ++
     (case given of None \<Rightarrow> Map.empty | Some d \<Rightarrow> d)"

definition spread_comparisons :: "comparisons option \<Rightarrow> comparisons option \<Rightarrow> comparisons" where
  "spread_comparisons defaults given =
     (let m = (case defaults of None \<Rightarrow> \<lparr>previousMonth = None, yearAgo = None\<rparr> | Some c \<Rightarrow> c)
      in case given of None \<Rightarrow> m
         | Some d \<Rightarrow>
             \<lparr>previousMonth = (case previousMonth d of None \<Rightarrow> previousMonth m | Some p \<Rightarrow> Some p),
              yearAgo = (case yearAgo d of None \<Rightarrow> yearAgo m | Some y \<Rightarrow> Some y)\<rparr>)"

definition fillMissingData :: "bill \<Rightarrow> bill" where
  "fillMissingData d =
     (let mockData = generateMockStructuredData
      in \<lparr>accountInfo = Some (spread (accountInfo mockData) (accountInfo d)),
          billingPeriod = Some (spread (billingPeriod mockData) (billingPeriod d)),
          charges = Some (spread (charges mockData) (charges d)),
          usage = Some (spread (usage mockData) (usage d)),
          rates = Some (spread (rates mockData) (rates d)),
          comparisons = Some (spread_comparisons (comparisons mockData) (comparisons d)),
          validationWarnings = None\<rparr>)"

definition or_empty :: "'v obj option \<Rightarrow> 'v obj option" where
  "or_empty x = (case x of None \<Rightarrow> Some Map.empty | Some m \<Rightarrow> Some m)"

text \<open>\<open>(x || 0)\<close> for a property \<open>x\<close> of the charges.\<close>

definition or_zero :: "numval option \<Rightarrow> jsnum" where
  "or_zero x = toNumber (jor x (Some (Num (Fin 0))))"

definition validateAndEnhanceData :: "bill \<Rightarrow> bill" where
  "validateAndEnhanceData d =
     (let v1 = d\<lparr>accountInfo := or_empty (accountInfo d),
                 charges := or_empty (charges d),
                 usage := or_empty (usage d),
                 billingPeriod := or_empty (billingPeriod d)\<rparr>;
          ch = (case charges v1 of None \<Rightarrow> Map.empty | Some m \<Rightarrow> m);
          u = (case usage v1 of None \<Rightarrow> Map.empty | Some m \<Rightarrow> m);
          v2 = (if truthy (u ''totalKwh'') \<and> truthy (ch ''energyCharges'')
                then v1\<lparr>rates := Some [''energyRate'' \<mapsto>
                            Num (jdiv (toNumber (ch ''energyCharges''))
                                      (toNumber (u ''totalKwh'')))]\<rparr>
                else v1)
      in if truthy (ch ''totalAmount'')
         then (let calculatedTotal =
                     jadd (jadd (jadd (jadd (or_zero (ch ''baseCharge''))
                                            (or_zero (ch ''energyCharges'')))
                                      (or_zero (ch ''deliveryCharges'')))
                                (or_zero (ch ''taxes'')))
                          (or_zero (ch ''fees''))
               in if jgt (jabs (jsub calculatedTotal (toNumber (ch ''totalAmount'')))) (Fin 5)
                  then v2\<lparr>validationWarnings :=
                            Some [''Total amount calculation discrepancy detected'']\<rparr>
                  else v2)
         else v2)"

text \<open>
  The normalisation of a record on the path without the language model:
  \<open>parseWithRegex\<close> ends in \<open>fillMissingData\<close>, and \<open>processDocument\<close> passes its result
  to \<open>validateAndEnhanceData\<close>.
\<close>

definition normalize :: "bill \<Rightarrow> bill" where
  "normalize d = validateAndEnhanceData (fillMissingData d)"

section \<open>routes/advancedBillingAPI.js: the batch upload\<close>

text \<open>
  The handler of \<open>POST /advanced-upload\<close> calls five services on every file, inside one
  \<open>try\<close> per file. The services are parameters here: each returns its result or the
  message of the error it throws. The clock-dependent fields of an entry
  (\<open>processingTime\<close>) and of the response (\<open>timestamp\<close>) are left out.
\<close>

record upload_file =
  originalname :: string
  mimetype :: string
  size :: nat

record ('d, 'a, 'p, 'r, 't) services =
  processDocument :: "upload_file \<Rightarrow> string + 'd"
  svc_detectAnomalies :: "'d \<Rightarrow> string + 'a"
  svc_generatePredictions :: "'d \<Rightarrow> string + 'p"
  svc_generateRecommendations :: "'d \<Rightarrow> 'a \<Rightarrow> 'p \<Rightarrow> string + 'r"
  svc_analyzePatterns :: "'d \<Rightarrow> string + 't"
  svc_confidence :: "'d \<Rightarrow> numval option"

datatype ('d, 'a, 'p, 'r, 't) entry =
    Succeeded string 'd 'a 'p 'r 't jsnum
  | Failed string string

fun filename :: "('d, 'a, 'p, 'r, 't) entry \<Rightarrow> string" where
  "filename (Succeeded f _ _ _ _ _ _) = f"
| "filename (Failed f _) = f"

fun success :: "('d, 'a, 'p, 'r, 't) entry \<Rightarrow> bool" where
  "success (Succeeded _ _ _ _ _ _ _) = True"
| "success (Failed _ _) = False"

text \<open>The body of the loop: the inner \<open>try\<close> and its \<open>catch\<close>.\<close>

definition process_file ::
    "('d, 'a, 'p, 'r, 't) services \<Rightarrow> upload_file \<Rightarrow> ('d, 'a, 'p, 'r, 't) entry" where
  "process_file s file =
     (case processDocument s file of
        Inl msg \<Rightarrow> Failed (originalname file) msg
      | Inr extractedData \<Rightarrow>
     (case svc_detectAnomalies s extractedData of
        Inl msg \<Rightarrow> Failed (originalname file) msg
      | Inr anomalies \<Rightarrow>
     (case svc_generatePredictions s extractedData of
        Inl msg \<Rightarrow> Failed (originalname file) msg
      | Inr preds \<Rightarrow>
     (case svc_generateRecommendations s extractedData anomalies preds of
        Inl msg \<Rightarrow> Failed (originalname file) msg
      | Inr recs \<Rightarrow>
     (case svc_analyzePatterns s extractedData of
        Inl msg \<Rightarrow> Failed (originalname file) msg
      | Inr patterns \<Rightarrow>
          Succeeded (originalname file) extractedData anomalies preds recs patterns
            (toNumber (jor (svc_confidence s extractedData) (Some (Num (Fin 0.85))))))))))"

text \<open>The \<open>for\<close> loop over \<open>req.files\<close>, pushing one entry per file onto \<open>results\<close>.\<close>

fun process_files ::
    "('d, 'a, 'p, 'r, 't) services \<Rightarrow> upload_file list \<Rightarrow> ('d, 'a, 'p, 'r, 't) entry list
      \<Rightarrow> ('d, 'a, 'p, 'r, 't) entry list" where
  "process_files s [] results = results"
| "process_files s (file # files) results =
     process_files s files (results @ [process_file s file])"

datatype ('d, 'a, 'p, 'r, 't) response =
    Status400 string
  | Json200 "('d, 'a, 'p, 'r, 't) entry list" nat nat

fun results_of :: "('d, 'a, 'p, 'r, 't) response \<Rightarrow> ('d, 'a, 'p, 'r, 't) entry list" where
  "results_of (Json200 rs _ _) = rs"
| "results_of (Status400 _) = []"

fun totalFiles :: "('d, 'a, 'p, 'r, 't) response \<Rightarrow> nat option" where
  "totalFiles (Json200 _ n _) = Some n"
| "totalFiles (Status400 _) = None"

fun successfulFiles :: "('d, 'a, 'p, 'r, 't) response \<Rightarrow> nat option" where
  "successfulFiles (Json200 _ _ n) = Some n"
| "successfulFiles (Status400 _) = None"

definition advanced_upload ::
    "('d, 'a, 'p, 'r, 't) services \<Rightarrow> upload_file list option
      \<Rightarrow> ('d, 'a, 'p, 'r, 't) response" where
  "advanced_upload s req_files =
     (case req_files of
        None \<Rightarrow> Status400 ''No files uploaded''
      | Some files \<Rightarrow>
          if length files = 0 then Status400 ''No files uploaded''
          else (let results = process_files s files []
                in Json200 results (length files) (length (filter success results))))"

section \<open>Example records\<close>

text \<open>A bill with a peak of 500 kWh out of 1000 kWh and nothing else.\<close>

definition peak_half_usage :: "numval obj" where
  "peak_half_usage = [''totalKwh'' \<mapsto> Num (Fin 1000), ''peakKwh'' \<mapsto> Num (Fin 500)]"

definition peak_half_bill :: bill where
  "peak_half_bill =
     \<lparr>accountInfo = None, billingPeriod = None, charges = None,
      usage = Some peak_half_usage,
      rates = None, comparisons = None, validationWarnings = None\<rparr>"

definition peak_moderate :: anomaly where
  "peak_moderate =
     \<lparr>atype = ''peak_usage_anomaly'', severity = ''moderate'',
      title = ''High Peak Usage Pattern'', impact = Fin 50,
      recommendations = getPeakRecommendations\<rparr>"

text \<open>
  A bill on two boundaries of the tiers: usage 125 kWh after 100 kWh (a change of 25 per
  cent), amount 150 after 100 (50 per cent).
\<close>

definition boundary_bill :: bill where
  "boundary_bill =
     \<lparr>accountInfo = None, billingPeriod = None,
      charges = Some [''totalAmount'' \<mapsto> Num (Fin 150)],
      usage = Some [''totalKwh'' \<mapsto> Num (Fin 125)],
      rates = None,
      comparisons = Some \<lparr>previousMonth =
                            Some [''usage'' \<mapsto> Num (Fin 100), ''amount'' \<mapsto> Num (Fin 100)],
                          yearAgo = None\<rparr>,
      validationWarnings = None\<rparr>"

definition boundary_usage_anomaly :: anomaly where
  "boundary_usage_anomaly =
     \<lparr>atype = ''usage_anomaly'', severity = ''moderate'',
      title = ''Increased Usage Pattern'', impact = Fin 25,
      recommendations = getUsageRecommendations (Fin 25)\<rparr>"

definition boundary_cost_anomaly :: anomaly where
  "boundary_cost_anomaly =
     \<lparr>atype = ''cost_anomaly'', severity = ''severe'',
      title = ''Higher Bill Amount'', impact = Fin 50,
      recommendations = getCostRecommendations (Fin 50)\<rparr>"

text \<open>A bill with a peak of 600 kWh out of 1000 kWh and nothing else.\<close>

definition peak_high_usage :: "numval obj" where
  "peak_high_usage = [''totalKwh'' \<mapsto> Num (Fin 1000), ''peakKwh'' \<mapsto> Num (Fin 600)]"

definition peak_high_bill :: bill where
  "peak_high_bill =
     \<lparr>accountInfo = None, billingPeriod = None, charges = None,
      usage = Some peak_high_usage,
      rates = None, comparisons = None, validationWarnings = None\<rparr>"

definition peak_severe :: anomaly where
  "peak_severe =
     \<lparr>atype = ''peak_usage_anomaly'', severity = ''severe'',
      title = ''High Peak Usage Pattern'', impact = Fin 60,
      recommendations = getPeakRecommendations\<rparr>"

text \<open>The boundary bill with a peak of 500 kWh out of 1000 kWh.\<close>

definition peak_half_full_bill :: bill where
  "peak_half_full_bill = boundary_bill\<lparr>usage := Some peak_half_usage\<rparr>"

text \<open>A first bill: a year-ago snapshot but no previous month.\<close>

definition first_bill :: bill where
  "first_bill =
     \<lparr>accountInfo = None, billingPeriod = None,
      charges = Some [''totalAmount'' \<mapsto> Num (Fin 190)],
      usage = Some [''totalKwh'' \<mapsto> Num (Fin 847), ''peakKwh'' \<mapsto> Num (Fin 296)],
      rates = None,
      comparisons = Some \<lparr>previousMonth = None,
                          yearAgo = Some [''usage'' \<mapsto> Num (Fin 723),
                                          ''amount'' \<mapsto> Num (Fin 158.67)]\<rparr>,
      validationWarnings = None\<rparr>"

text \<open>
  A vacant property: no consumption this month nor the month before, and a bill of the
  base charge only.
\<close>

definition vacant_usage :: "numval obj" where
  "vacant_usage = [''totalKwh'' \<mapsto> Num (Fin 0)]"

definition vacant_previous :: "numval obj" where
  "vacant_previous = [''usage'' \<mapsto> Num (Fin 0), ''amount'' \<mapsto> Num (Fin 0)]"

definition vacant_comparisons :: comparisons where
  "vacant_comparisons = \<lparr>previousMonth = Some vacant_previous, yearAgo = None\<rparr>"

definition vacant_bill :: bill where
  "vacant_bill =
     \<lparr>accountInfo = None, billingPeriod = None,
      charges = Some [''totalAmount'' \<mapsto> Num (Fin 24.99)],
      usage = Some vacant_usage,
      rates = None,
      comparisons = Some vacant_comparisons,
      validationWarnings = None\<rparr>"

text \<open>
  The first bill of a vacant property: no consumption, and a \<open>comparisons\<close> object
  without a previous month.
\<close>

definition no_previous :: comparisons where
  "no_previous = \<lparr>previousMonth = None, yearAgo = None\<rparr>"

definition vacant_first_bill :: bill where
  "vacant_first_bill =
     \<lparr>accountInfo = None, billingPeriod = None, charges = None,
      usage = Some vacant_usage,
      rates = None, comparisons = Some no_previous, validationWarnings = None\<rparr>"

text \<open>A newly occupied property: the mock bill's totals after a month of nothing.\<close>

definition moved_in_usage :: "numval obj" where
  "moved_in_usage = [''totalKwh'' \<mapsto> Num (Fin 847)]"

definition moved_in_charges :: "numval obj" where
  "moved_in_charges = [''totalAmount'' \<mapsto> Num (Fin 190)]"

definition moved_in_bill :: bill where
  "moved_in_bill =
     \<lparr>accountInfo = None, billingPeriod = None,
      charges = Some moved_in_charges,
      usage = Some moved_in_usage,
      rates = None,
      comparisons = Some vacant_comparisons,
      validationWarnings = None\<rparr>"

text \<open>
  The scenario of the forecast: an amount of 200 after 100, and a consumption of 150 kWh
  after 100 kWh. \<open>scenario_predictions\<close> is its forecast made in January.
\<close>

definition scenario_charges :: "numval obj" where
  "scenario_charges = [''totalAmount'' \<mapsto> Num (Fin 200)]"

definition scenario_usage :: "numval obj" where
  "scenario_usage = [''totalKwh'' \<mapsto> Num (Fin 150)]"

definition scenario_previous :: "numval obj" where
  "scenario_previous = [''usage'' \<mapsto> Num (Fin 100), ''amount'' \<mapsto> Num (Fin 100)]"

definition scenario_comparisons :: comparisons where
  "scenario_comparisons = \<lparr>previousMonth = Some scenario_previous, yearAgo = None\<rparr>"

definition scenario_bill :: bill where
  "scenario_bill =
     \<lparr>accountInfo = None, billingPeriod = None,
      charges = Some scenario_charges,
      usage = Some scenario_usage,
      rates = None,
      comparisons = Some scenario_comparisons,
      validationWarnings = None\<rparr>"

definition scenario_next_month :: next_month where
  "scenario_next_month =
     \<lparr>nm_usage = Fin 300, nm_amount = Fin 400, nm_confidence = Fin 0.85,
      nm_factors = [''historical trend'', ''seasonal adjustment'', ''usage patterns'']\<rparr>"

definition scenario_predictions :: predictions where
  "scenario_predictions =
     \<lparr>nextMonth = Some scenario_next_month,
      quarterly = [\<lparr>q_month = 1, q_usage = Fin 195, q_amount = Fin 260\<rparr>,
                   \<lparr>q_month = 2, q_usage = Fin 135, q_amount = Fin 180\<rparr>,
                   \<lparr>q_month = 3, q_usage = Fin 135, q_amount = Fin 180\<rparr>],
      annual = \<lparr>estimatedTotal = Fin 2400,
                 an_breakdown = \<lparr>energy = Fin 1680, delivery = Fin 360, fees = Fin 360\<rparr>,
                 an_confidence = Fin 0.75\<rparr>,
      seasonal = Some [\<lparr>season = ''winter'', factor = Some (Num (Fin 1.3)),
                         estimatedAmount = Fin 260\<rparr>,
                       \<lparr>season = ''spring'', factor = Some (Num (Fin 0.9)),
                         estimatedAmount = Fin 180\<rparr>,
                       \<lparr>season = ''summer'', factor = Some (Num (Fin 1.4)),
                         estimatedAmount = Fin 280\<rparr>,
                       \<lparr>season = ''fall'', factor = Some (Num (Fin 1.0)),
                         estimatedAmount = Fin 200\<rparr>]\<rparr>"

text \<open>What the scenario's bill makes the detector return, and a projection for reading a bucket.\<close>

definition scenario_anomalies :: "anomaly list" where
  "scenario_anomalies =
     [\<lparr>atype = ''usage_anomaly'', severity = ''severe'',
       title = ''Increased Usage Pattern'', impact = Fin 50,
       recommendations = getUsageRecommendations (Fin 50)\<rparr>,
      \<lparr>atype = ''cost_anomaly'', severity = ''severe'',
       title = ''Higher Bill Amount'', impact = Fin 100,
       recommendations = getCostRecommendations (Fin 100)\<rparr>]"

definition priorities_and_savings :: "recommendation list \<Rightarrow> (string \<times> jsnum) list" where
  "priorities_and_savings rs = map (\<lambda>r. (priority r, savings r)) rs"

text \<open>
  A batch of three uploads for services that fail on some of them: the extraction
  refuses what is not a PDF, and the pattern analysis throws on an empty document.
\<close>

definition demo_services :: "(nat, nat, nat, nat, nat) services" where
  "demo_services =
     \<lparr>processDocument = (\<lambda>f. if mimetype f = ''application/pdf'' then Inr (size f)
                              else Inl ''Failed to process document: Unsupported file type''),
      svc_detectAnomalies = (\<lambda>d. Inr (d + 1)),
      svc_generatePredictions = (\<lambda>d. Inr (d + 2)),
      svc_generateRecommendations = (\<lambda>d a p. Inr (a + p)),
      svc_analyzePatterns = (\<lambda>d. if d = 0 then Inl ''Cannot read properties of undefined''
                                  else Inr d),
      svc_confidence = (\<lambda>d. None)\<rparr>"

definition demo_files :: "upload_file list" where
  "demo_files =
     [\<lparr>originalname = ''january.pdf'', mimetype = ''application/pdf'', size = 10\<rparr>,
      \<lparr>originalname = ''notes.txt'', mimetype = ''text/plain'', size = 5\<rparr>,
      \<lparr>originalname = ''empty.pdf'', mimetype = ''application/pdf'', size = 0\<rparr>]"

section \<open>Properties of the anomaly detector\<close>

subsection \<open>The sort keeps the elements\<close>

lemma set_insert_by: "set (insert_by cmp x xs) = insert x (set xs)"
  by (induction xs) auto

lemma set_sort_by: "set (sort_by cmp xs) = set xs"
  by (induction xs) (simp_all add: sort_by_def set_insert_by)

lemma set_prioritizeAnomalies: "set (prioritizeAnomalies xs) = set xs"
  by (simp add: prioritizeAnomalies_def set_sort_by)

subsection \<open>What each detector returns\<close>

lemma detectUsageAnomalies_type:
  "detectUsageAnomalies b = Inr xs \<Longrightarrow> a \<in> set xs \<Longrightarrow> atype a = ''usage_anomaly''"
  by (auto simp: detectUsageAnomalies_def Let_def split: option.splits if_splits)

lemma detectCostAnomalies_type:
  "detectCostAnomalies b = Inr xs \<Longrightarrow> a \<in> set xs \<Longrightarrow> atype a = ''cost_anomaly''"
  by (auto simp: detectCostAnomalies_def Let_def split: option.splits if_splits)

lemma detectPatternAnomalies_type:
  "detectPatternAnomalies b = Inr xs \<Longrightarrow> a \<in> set xs \<Longrightarrow> atype a = ''peak_usage_anomaly''"
  by (auto simp: detectPatternAnomalies_def Let_def split: option.splits if_splits)

lemma detectUsageAnomalies_total:
  "usage b \<noteq> None \<Longrightarrow> comparisons b \<noteq> None \<Longrightarrow> \<exists>xs. detectUsageAnomalies b = Inr xs"
  by (auto simp: detectUsageAnomalies_def Let_def split: option.splits)

lemma detectCostAnomalies_total:
  "charges b \<noteq> None \<Longrightarrow> comparisons b \<noteq> None \<Longrightarrow> \<exists>xs. detectCostAnomalies b = Inr xs"
  by (auto simp: detectCostAnomalies_def Let_def split: option.splits)

lemma detectAnomalies_Inr_usage: "detectAnomalies b = Inr as \<Longrightarrow> usage b \<noteq> None"
  by (auto simp: detectAnomalies_def detectPatternAnomalies_def
           split: sum.splits option.splits if_splits)

text \<open>
  With a \<open>usage\<close> sub-object nothing throws, and the result is the sorted concatenation
  of what the three detectors return.
\<close>

lemma detectAnomalies_parts:
  assumes "usage b \<noteq> None"
  shows "\<exists>us cs ps. detectAnomalies b = Inr (prioritizeAnomalies (us @ cs @ ps))
           \<and> (if comparisons b \<noteq> None then detectUsageAnomalies b = Inr us else us = [])
           \<and> (if charges b \<noteq> None \<and> comparisons b \<noteq> None
               then detectCostAnomalies b = Inr cs else cs = [])
           \<and> detectPatternAnomalies b = Inr ps"
proof -
  have "\<exists>us. (if usage b \<noteq> None \<and> comparisons b \<noteq> None
            then detectUsageAnomalies b else Inr []) = Inr us"
    using detectUsageAnomalies_total[of b] by (cases "comparisons b"; cases "usage b"; simp)
  then obtain us where us: "(if usage b \<noteq> None \<and> comparisons b \<noteq> None
            then detectUsageAnomalies b else Inr []) = Inr us" by blast
  have "\<exists>cs. (if charges b \<noteq> None \<and> comparisons b \<noteq> None
            then detectCostAnomalies b else Inr []) = Inr cs"
    using detectCostAnomalies_total[of b] by (cases "comparisons b"; cases "charges b"; simp)
  then obtain cs where cs: "(if charges b \<noteq> None \<and> comparisons b \<noteq> None
            then detectCostAnomalies b else Inr []) = Inr cs" by blast
  obtain ps where ps: "detectPatternAnomalies b = Inr ps"
    using assms by (auto simp: detectPatternAnomalies_def split: option.splits)
  have "detectAnomalies b = Inr (prioritizeAnomalies (us @ cs @ ps))"
    unfolding detectAnomalies_def by (simp only: us cs ps sum.case)
  then show ?thesis using us cs ps assms by (auto split: if_splits)
qed

subsection \<open>A peak of exactly half the consumption\<close>

lemma detectPatternAnomalies_peak50:
  assumes "usage b = Some u" "u ''peakKwh'' = Some (Num (Fin 500))"
    "u ''totalKwh'' = Some (Num (Fin 1000))"
  shows "detectPatternAnomalies b = Inr [peak_moderate]"
  using assms by (simp add: detectPatternAnomalies_def peak_moderate_def)

text \<open>
  What the peak check emits: an anomaly whose impact is the ratio
  \<open>peakKwh / totalKwh * 100\<close>, above 40, and whose severity is \<open>severe\<close> exactly when
  that ratio is strictly above 50 and \<open>moderate\<close> otherwise.
\<close>

lemma peak_emitted:
  assumes "detectPatternAnomalies b = Inr xs" "a \<in> set xs"
  shows "(\<exists>u. usage b = Some u \<and>
              impact a = jmul (jdiv (toNumber (u ''peakKwh'')) (toNumber (u ''totalKwh'')))
                              (Fin 100)) \<and>
         jgt (impact a) (Fin 40) \<and>
         (severity a = ''severe'' \<longleftrightarrow> jgt (impact a) (Fin 50)) \<and>
         (severity a = ''moderate'' \<longleftrightarrow> \<not> jgt (impact a) (Fin 50))"
  using assms
  by (auto simp: detectPatternAnomalies_def Let_def split: option.splits if_splits)

lemma detectAnomalies_peak_member:
  assumes "detectAnomalies b = Inr as" "a \<in> set as" "atype a = ''peak_usage_anomaly''"
  shows "\<exists>ps. detectPatternAnomalies b = Inr ps \<and> a \<in> set ps"
proof -
  from assms(1) have "usage b \<noteq> None" by (rule detectAnomalies_Inr_usage)
  from detectAnomalies_parts[OF this] obtain us cs ps where
    d: "detectAnomalies b = Inr (prioritizeAnomalies (us @ cs @ ps))"
    and us: "if comparisons b \<noteq> None then detectUsageAnomalies b = Inr us else us = []"
    and cs: "if charges b \<noteq> None \<and> comparisons b \<noteq> None
               then detectCostAnomalies b = Inr cs else cs = []"
    and ps: "detectPatternAnomalies b = Inr ps" by blast
  have u: "\<forall>a\<in>set us. atype a = ''usage_anomaly''"
    using us detectUsageAnomalies_type by (auto split: if_splits)
  have c: "\<forall>a\<in>set cs. atype a = ''cost_anomaly''"
    using cs detectCostAnomalies_type by (auto split: if_splits)
  have "a \<in> set us \<union> set cs \<union> set ps"
    using d assms(1,2) by (auto simp: set_prioritizeAnomalies)
  with u c assms(3) have "a \<in> set ps" by auto
  with ps show ?thesis by blast
qed

lemma peak_high_detect: "detectAnomalies peak_high_bill = Inr [peak_severe]"
  by (simp add: detectAnomalies_def peak_high_bill_def peak_high_usage_def
        detectPatternAnomalies_def prioritizeAnomalies_def sort_by_def peak_severe_def)

text \<open>
  Claim C1, as the code has it: for every bill record whose \<open>usage.peakKwh\<close> is 500 and
  whose \<open>usage.totalKwh\<close> is 1000, \<open>detectAnomalies\<close> returns, and its result holds the
  peak-usage anomaly of impact 50 with severity \<open>moderate\<close>; no peak-usage anomaly of
  another severity is in it. The ratio is 50, and the test for \<open>severe\<close> is
  \<open>peakRatio > 50\<close>: for every bill record, every peak-usage anomaly that
  \<open>detectAnomalies\<close> returns has the ratio of that record as its impact, above 40, and
  is \<open>severe\<close> exactly when the ratio is strictly above 50 and \<open>moderate\<close> exactly when
  it is not.
\<close>

theorem C1_peak_half_is_moderate:
  assumes "usage b = Some u" "u ''peakKwh'' = Some (Num (Fin 500))"
    "u ''totalKwh'' = Some (Num (Fin 1000))"
  shows "(\<exists>as. detectAnomalies b = Inr as \<and> peak_moderate \<in> set as \<and>
           (\<forall>a\<in>set as. atype a = ''peak_usage_anomaly'' \<longrightarrow> a = peak_moderate)) \<and>
         (\<forall>b' as' a. detectAnomalies b' = Inr as' \<and> a \<in> set as' \<and>
             atype a = ''peak_usage_anomaly'' \<longrightarrow>
             (\<exists>u'. usage b' = Some u' \<and>
                impact a = jmul (jdiv (toNumber (u' ''peakKwh'')) (toNumber (u' ''totalKwh'')))
                                (Fin 100)) \<and>
             jgt (impact a) (Fin 40) \<and>
             (severity a = ''severe'' \<longleftrightarrow> jgt (impact a) (Fin 50)) \<and>
             (severity a = ''moderate'' \<longleftrightarrow> \<not> jgt (impact a) (Fin 50)))"
proof (rule conjI)
  from assms(1) have "usage b \<noteq> None" by simp
  from detectAnomalies_parts[OF this] obtain us cs ps where
    d: "detectAnomalies b = Inr (prioritizeAnomalies (us @ cs @ ps))"
    and us: "if comparisons b \<noteq> None then detectUsageAnomalies b = Inr us else us = []"
    and cs: "if charges b \<noteq> None \<and> comparisons b \<noteq> None
               then detectCostAnomalies b = Inr cs else cs = []"
    and ps: "detectPatternAnomalies b = Inr ps" by blast
  have ps': "ps = [peak_moderate]"
    using ps detectPatternAnomalies_peak50[OF assms] by simp
  have u: "\<forall>a\<in>set us. atype a = ''usage_anomaly''"
    using us detectUsageAnomalies_type by (auto split: if_splits)
  have c: "\<forall>a\<in>set cs. atype a = ''cost_anomaly''"
    using cs detectCostAnomalies_type by (auto split: if_splits)
  show "\<exists>as. detectAnomalies b = Inr as \<and> peak_moderate \<in> set as \<and>
           (\<forall>a\<in>set as. atype a = ''peak_usage_anomaly'' \<longrightarrow> a = peak_moderate)"
    using d u c by (auto simp: set_prioritizeAnomalies ps')
next
  show "\<forall>b' as' a. detectAnomalies b' = Inr as' \<and> a \<in> set as' \<and>
             atype a = ''peak_usage_anomaly'' \<longrightarrow>
             (\<exists>u'. usage b' = Some u' \<and>
                impact a = jmul (jdiv (toNumber (u' ''peakKwh'')) (toNumber (u' ''totalKwh'')))
                                (Fin 100)) \<and>
             jgt (impact a) (Fin 40) \<and>
             (severity a = ''severe'' \<longleftrightarrow> jgt (impact a) (Fin 50)) \<and>
             (severity a = ''moderate'' \<longleftrightarrow> \<not> jgt (impact a) (Fin 50))"
  proof (intro allI impI)
    fix b' as' a
    assume h: "detectAnomalies b' = Inr as' \<and> a \<in> set as' \<and>
             atype a = ''peak_usage_anomaly''"
    then obtain ps where "detectPatternAnomalies b' = Inr ps" "a \<in> set ps"
      using detectAnomalies_peak_member by blast
    then show "(\<exists>u'. usage b' = Some u' \<and>
                impact a = jmul (jdiv (toNumber (u' ''peakKwh'')) (toNumber (u' ''totalKwh'')))
                                (Fin 100)) \<and>
             jgt (impact a) (Fin 40) \<and>
             (severity a = ''severe'' \<longleftrightarrow> jgt (impact a) (Fin 50)) \<and>
             (severity a = ''moderate'' \<longleftrightarrow> \<not> jgt (impact a) (Fin 50))"
      by (rule peak_emitted)
  qed
qed

theorem C1_peak_half_is_moderate_witness:
  "usage peak_half_full_bill = Some peak_half_usage \<and>
   peak_half_usage ''peakKwh'' = Some (Num (Fin 500)) \<and>
   peak_half_usage ''totalKwh'' = Some (Num (Fin 1000)) \<and>
   (\<exists>as. detectAnomalies peak_half_full_bill = Inr as \<and> peak_moderate \<in> set as) \<and>
   detectAnomalies peak_high_bill = Inr [peak_severe] \<and>
   peak_severe \<in> set [peak_severe] \<and>
   atype peak_severe = ''peak_usage_anomaly'' \<and>
   severity peak_severe = ''severe'' \<and>
   jgt (impact peak_severe) (Fin 50)"
proof -
  have h1: "usage peak_half_full_bill = Some peak_half_usage"
    by (simp add: peak_half_full_bill_def)
  have h2: "peak_half_usage ''peakKwh'' = Some (Num (Fin 500))"
    by (simp add: peak_half_usage_def)
  have h3: "peak_half_usage ''totalKwh'' = Some (Num (Fin 1000))"
    by (simp add: peak_half_usage_def)
  have g: "detectAnomalies peak_high_bill = Inr [peak_severe] \<and>
     peak_severe \<in> set [peak_severe] \<and> atype peak_severe = ''peak_usage_anomaly''"
    by (simp add: peak_high_detect) (simp add: peak_severe_def)
  have s: "severity peak_severe = ''severe''" by (simp add: peak_severe_def)
  from C1_peak_half_is_moderate[OF h1 h2 h3] have
    a: "\<exists>as. detectAnomalies peak_half_full_bill = Inr as \<and> peak_moderate \<in> set as"
    and b: "\<forall>b' as' a. detectAnomalies b' = Inr as' \<and> a \<in> set as' \<and>
             atype a = ''peak_usage_anomaly'' \<longrightarrow>
             (severity a = ''severe'' \<longleftrightarrow> jgt (impact a) (Fin 50))"
    by blast+
  from b g s have "jgt (impact peak_severe) (Fin 50)" by blast
  with a g s h1 h2 h3 show ?thesis by blast
qed

text \<open>
  Claim C1 as stated fails: on the bill that has only this usage, the detector returns
  the single peak-usage anomaly, and its severity is \<open>moderate\<close>, not \<open>severe\<close>.
\<close>

theorem C1_counterexample:
  "detectAnomalies peak_half_bill = Inr [peak_moderate] \<and>
   severity peak_moderate = ''moderate'' \<and> severity peak_moderate \<noteq> ''severe''"
  by (simp add: detectAnomalies_def peak_half_bill_def peak_half_usage_def
        detectPatternAnomalies_def prioritizeAnomalies_def sort_by_def peak_moderate_def)

subsection \<open>The severity tiers\<close>

lemma usage_emitted:
  assumes "detectUsageAnomalies b = Inr xs" "a \<in> set xs"
  shows "jgt (impact a) (Fin 15) \<and> severity a = getSeverity (impact a) usage_thresholds"
  using assms
  by (auto simp: detectUsageAnomalies_def Let_def usage_thresholds_def
           split: option.splits if_splits)

lemma cost_emitted:
  assumes "detectCostAnomalies b = Inr xs" "a \<in> set xs"
  shows "jgt (impact a) (Fin 20) \<and> severity a = getSeverity (impact a) cost_thresholds"
  using assms
  by (auto simp: detectCostAnomalies_def Let_def cost_thresholds_def
           split: option.splits if_splits)

lemma usage_tiers:
  "(getSeverity x usage_thresholds = ''mild'' \<longleftrightarrow> \<not> jge x (Fin 25)) \<and>
   (getSeverity x usage_thresholds = ''moderate'' \<longleftrightarrow> jge x (Fin 25) \<and> \<not> jge x (Fin 40)) \<and>
   (getSeverity x usage_thresholds = ''severe'' \<longleftrightarrow> jge x (Fin 40))"
  by (cases x) (auto simp: getSeverity_def usage_thresholds_def)

lemma cost_tiers:
  "(getSeverity x cost_thresholds = ''mild'' \<longleftrightarrow> \<not> jge x (Fin 35)) \<and>
   (getSeverity x cost_thresholds = ''moderate'' \<longleftrightarrow> jge x (Fin 35) \<and> \<not> jge x (Fin 50)) \<and>
   (getSeverity x cost_thresholds = ''severe'' \<longleftrightarrow> jge x (Fin 50))"
  by (cases x) (auto simp: getSeverity_def cost_thresholds_def)

lemma not_jge_jlt: "jgt x (Fin l) \<Longrightarrow> (\<not> jge x (Fin t)) = jlt x (Fin t)"
  by (cases x) (auto simp: jlt_def)

lemma severity_rank_mono:
  assumes "jge y x" "moderate t = Fin m" "severe t = Fin s" "m \<le> s"
  shows "jge (toNumber (severityOrder (getSeverity y t)))
             (toNumber (severityOrder (getSeverity x t)))"
  using assms
  by (cases x; cases y) (auto simp: getSeverity_def severityOrder_def)

text \<open>
  Claim C2, as the code has it: every usage anomaly the detector emits has an impact
  (the absolute change in per cent) above 15, and its severity is \<open>mild\<close> exactly when
  the impact is below 25, \<open>moderate\<close> exactly when it is at least 25 and below 40, and
  \<open>severe\<close> exactly when it is at least 40; for a cost anomaly the bounds are 20, 35 and
  50. The tiers are the intervals (15,25), [25,40) and [40,\<infinity>], closed on the left.
  Between any two emitted anomalies of one kind, a larger impact never has a lower rank in
  \<open>severityOrder\<close>.
\<close>

theorem C2_severity_tiers:
  "(detectUsageAnomalies b = Inr xs \<and> a \<in> set xs \<longrightarrow>
      jgt (impact a) (Fin 15) \<and>
      (severity a = ''mild'' \<longleftrightarrow> jlt (impact a) (Fin 25)) \<and>
      (severity a = ''moderate'' \<longleftrightarrow> jge (impact a) (Fin 25) \<and> jlt (impact a) (Fin 40)) \<and>
      (severity a = ''severe'' \<longleftrightarrow> jge (impact a) (Fin 40))) \<and>
   (detectCostAnomalies b = Inr ys \<and> c \<in> set ys \<longrightarrow>
      jgt (impact c) (Fin 20) \<and>
      (severity c = ''mild'' \<longleftrightarrow> jlt (impact c) (Fin 35)) \<and>
      (severity c = ''moderate'' \<longleftrightarrow> jge (impact c) (Fin 35) \<and> jlt (impact c) (Fin 50)) \<and>
      (severity c = ''severe'' \<longleftrightarrow> jge (impact c) (Fin 50))) \<and>
   (detectUsageAnomalies b = Inr xs \<and> a \<in> set xs \<and>
    detectUsageAnomalies b' = Inr xs' \<and> a' \<in> set xs' \<and> jge (impact a') (impact a) \<longrightarrow>
      jge (toNumber (severityOrder (severity a'))) (toNumber (severityOrder (severity a)))) \<and>
   (detectCostAnomalies b = Inr ys \<and> c \<in> set ys \<and>
    detectCostAnomalies b' = Inr ys' \<and> c' \<in> set ys' \<and> jge (impact c') (impact c) \<longrightarrow>
      jge (toNumber (severityOrder (severity c'))) (toNumber (severityOrder (severity c))))"
proof (intro conjI impI)
  assume h: "detectUsageAnomalies b = Inr xs \<and> a \<in> set xs"
  then have e: "jgt (impact a) (Fin 15)" "severity a = getSeverity (impact a) usage_thresholds"
    using usage_emitted by blast+
  show "jgt (impact a) (Fin 15)" by (rule e)
  show "severity a = ''mild'' \<longleftrightarrow> jlt (impact a) (Fin 25)"
    using usage_tiers[of "impact a"] not_jge_jlt[OF e(1)] e(2) by simp
  show "severity a = ''moderate'' \<longleftrightarrow> jge (impact a) (Fin 25) \<and> jlt (impact a) (Fin 40)"
    using usage_tiers[of "impact a"] not_jge_jlt[OF e(1)] e(2) by simp
  show "severity a = ''severe'' \<longleftrightarrow> jge (impact a) (Fin 40)"
    using usage_tiers[of "impact a"] e(2) by simp
next
  assume h: "detectCostAnomalies b = Inr ys \<and> c \<in> set ys"
  then have e: "jgt (impact c) (Fin 20)" "severity c = getSeverity (impact c) cost_thresholds"
    using cost_emitted by blast+
  show "jgt (impact c) (Fin 20)" by (rule e)
  show "severity c = ''mild'' \<longleftrightarrow> jlt (impact c) (Fin 35)"
    using cost_tiers[of "impact c"] not_jge_jlt[OF e(1)] e(2) by simp
  show "severity c = ''moderate'' \<longleftrightarrow> jge (impact c) (Fin 35) \<and> jlt (impact c) (Fin 50)"
    using cost_tiers[of "impact c"] not_jge_jlt[OF e(1)] e(2) by simp
  show "severity c = ''severe'' \<longleftrightarrow> jge (impact c) (Fin 50)"
    using cost_tiers[of "impact c"] e(2) by simp
next
  assume h: "detectUsageAnomalies b = Inr xs \<and> a \<in> set xs \<and>
    detectUsageAnomalies b' = Inr xs' \<and> a' \<in> set xs' \<and> jge (impact a') (impact a)"
  then have "severity a = getSeverity (impact a) usage_thresholds"
    "severity a' = getSeverity (impact a') usage_thresholds"
    using usage_emitted by blast+
  moreover have "jge (impact a') (impact a)" using h by simp
  ultimately show "jge (toNumber (severityOrder (severity a')))
                       (toNumber (severityOrder (severity a)))"
    using severity_rank_mono[of "impact a'" "impact a" usage_thresholds 25 40]
    by (simp add: usage_thresholds_def)
next
  assume h: "detectCostAnomalies b = Inr ys \<and> c \<in> set ys \<and>
    detectCostAnomalies b' = Inr ys' \<and> c' \<in> set ys' \<and> jge (impact c') (impact c)"
  then have "severity c = getSeverity (impact c) cost_thresholds"
    "severity c' = getSeverity (impact c') cost_thresholds"
    using cost_emitted by blast+
  moreover have "jge (impact c') (impact c)" using h by simp
  ultimately show "jge (toNumber (severityOrder (severity c')))
                       (toNumber (severityOrder (severity c)))"
    using severity_rank_mono[of "impact c'" "impact c" cost_thresholds 35 50]
    by (simp add: cost_thresholds_def)
qed

lemma boundary_bill_usage:
  "detectUsageAnomalies boundary_bill = Inr [boundary_usage_anomaly]"
  by (simp add: detectUsageAnomalies_def boundary_bill_def previous_or_current_def jor_def
        percent_change_def jsub_def usage_thresholds_def getSeverity_def Let_def
        boundary_usage_anomaly_def)

lemma boundary_bill_cost:
  "detectCostAnomalies boundary_bill = Inr [boundary_cost_anomaly]"
  by (simp add: detectCostAnomalies_def boundary_bill_def previous_or_current_def jor_def
        percent_change_def jsub_def cost_thresholds_def getSeverity_def Let_def
        boundary_cost_anomaly_def)

theorem C2_severity_tiers_witness:
  "detectUsageAnomalies boundary_bill = Inr [boundary_usage_anomaly] \<and>
   boundary_usage_anomaly \<in> set [boundary_usage_anomaly] \<and>
   detectCostAnomalies boundary_bill = Inr [boundary_cost_anomaly] \<and>
   boundary_cost_anomaly \<in> set [boundary_cost_anomaly] \<and>
   jge (impact boundary_usage_anomaly) (impact boundary_usage_anomaly) \<and>
   jge (impact boundary_cost_anomaly) (impact boundary_cost_anomaly) \<and>
   jgt (impact boundary_usage_anomaly) (Fin 15) \<and>
   jge (impact boundary_usage_anomaly) (Fin 25) \<and>
   jlt (impact boundary_usage_anomaly) (Fin 40) \<and>
   jgt (impact boundary_cost_anomaly) (Fin 20) \<and>
   jge (impact boundary_cost_anomaly) (Fin 50) \<and>
   severity boundary_cost_anomaly = ''severe''"
  using C2_severity_tiers[where b = boundary_bill and xs = "[boundary_usage_anomaly]"
          and a = boundary_usage_anomaly and ys = "[boundary_cost_anomaly]"
          and c = boundary_cost_anomaly and b' = boundary_bill
          and xs' = "[boundary_usage_anomaly]" and a' = boundary_usage_anomaly
          and ys' = "[boundary_cost_anomaly]" and c' = boundary_cost_anomaly]
        boundary_bill_usage boundary_bill_cost
  by (simp add: boundary_usage_anomaly_def boundary_cost_anomaly_def)

text \<open>
  Claim C2 as stated fails on the boundaries it names: a usage change of exactly 25 per
  cent is \<open>moderate\<close> where the claim's tier (15,25] says \<open>mild\<close>, and a cost change of
  exactly 50 per cent is \<open>severe\<close> where (35,50] says \<open>moderate\<close>.
\<close>

theorem C2_counterexample:
  "detectUsageAnomalies boundary_bill =
     Inr [\<lparr>atype = ''usage_anomaly'', severity = ''moderate'',
           title = ''Increased Usage Pattern'', impact = Fin 25,
           recommendations = getUsageRecommendations (Fin 25)\<rparr>] \<and>
   detectCostAnomalies boundary_bill =
     Inr [\<lparr>atype = ''cost_anomaly'', severity = ''severe'',
           title = ''Higher Bill Amount'', impact = Fin 50,
           recommendations = getCostRecommendations (Fin 50)\<rparr>]"
  by (simp add: detectUsageAnomalies_def detectCostAnomalies_def boundary_bill_def
        previous_or_current_def jor_def percent_change_def jsub_def usage_thresholds_def
        cost_thresholds_def getSeverity_def Let_def)

subsection \<open>No previous month\<close>

lemma percent_change_self: "percent_change x x = Fin 0 \<or> percent_change x x = NaN"
proof (cases x)
  case None
  then show ?thesis by (simp add: percent_change_def jsub_def)
next
  case (Some v)
  show ?thesis
  proof (cases v)
    case Null
    with Some show ?thesis by (simp add: percent_change_def jsub_def)
  next
    case (Num n)
    with Some show ?thesis by (cases n) (simp_all add: percent_change_def jsub_def signed_inf_def)
  qed
qed

lemma no_emit_self: "0 \<le> t \<Longrightarrow> \<not> jgt (jabs (percent_change x x)) (Fin t)"
  using percent_change_self[of x] by auto

lemma previous_absent: "previousMonth c = None \<Longrightarrow> previous_or_current c f cur = cur"
  by (simp add: previous_or_current_def jor_def)

lemma detectUsageAnomalies_same:
  assumes "usage b = Some u" "comparisons b = Some c"
    "previous_or_current c ''usage'' (u ''totalKwh'') = u ''totalKwh''"
  shows "detectUsageAnomalies b = Inr []"
  using assms no_emit_self[of 15 "u ''totalKwh''"]
  by (simp add: detectUsageAnomalies_def usage_thresholds_def)

lemma detectCostAnomalies_same:
  assumes "charges b = Some ch" "comparisons b = Some c"
    "previous_or_current c ''amount'' (ch ''totalAmount'') = ch ''totalAmount''"
  shows "detectCostAnomalies b = Inr []"
  using assms no_emit_self[of 20 "ch ''totalAmount''"]
  by (simp add: detectCostAnomalies_def cost_thresholds_def)

lemma percent_change_self_other:
  "\<not> (\<exists>x. cur = Some (Num (Fin x)) \<and> x \<noteq> 0) \<Longrightarrow> percent_change cur cur = NaN"
proof (cases cur)
  case None
  then show ?thesis by (simp add: percent_change_def jsub_def)
next
  case (Some v)
  assume n: "\<not> (\<exists>x. cur = Some (Num (Fin x)) \<and> x \<noteq> 0)"
  show ?thesis
  proof (cases v)
    case Null
    with Some show ?thesis by (simp add: percent_change_def jsub_def)
  next
    case (Num k)
    with Some n show ?thesis
      by (cases k) (simp_all add: percent_change_def jsub_def signed_inf_def)
  qed
qed

text \<open>
  Claim C3, as the code has it: for every bill record in which
  \<open>comparisons.previousMonth\<close> is absent (the
  \<open>comparisons\<close> sub-object missing altogether, or present without a previous month),
  \<open>detectAnomalies\<close> returns no anomaly of type \<open>usage_anomaly\<close> and none of type
  \<open>cost_anomaly\<close>; and it does return whenever the record has a \<open>usage\<close> sub-object.
  Where the checks run, the previous value is the current one, and the change is 0 for
  every current value that is a finite number other than 0; for every other current
  value (0, \<open>null\<close>, missing, infinite or \<open>NaN\<close>) the change is \<open>NaN\<close>.
\<close>

theorem C3_no_previous_month_no_anomaly:
  assumes "comparisons b = None \<or> (\<exists>c. comparisons b = Some c \<and> previousMonth c = None)"
  shows "(usage b \<noteq> None \<longrightarrow> (\<exists>as. detectAnomalies b = Inr as)) \<and>
         (\<forall>as. detectAnomalies b = Inr as \<longrightarrow>
            (\<forall>a\<in>set as. atype a \<noteq> ''usage_anomaly'' \<and> atype a \<noteq> ''cost_anomaly'')) \<and>
         (\<forall>c f cur. comparisons b = Some c \<longrightarrow>
            previous_or_current c f cur = cur \<and>
            (\<forall>x. cur = Some (Num (Fin x)) \<and> x \<noteq> 0 \<longrightarrow>
               percent_change cur (previous_or_current c f cur) = Fin 0) \<and>
            (\<not> (\<exists>x. cur = Some (Num (Fin x)) \<and> x \<noteq> 0) \<longrightarrow>
               percent_change cur (previous_or_current c f cur) = NaN))"
proof (intro conjI allI impI)
  fix c :: comparisons and f cur
  assume c: "comparisons b = Some c"
  with assms have pm: "previousMonth c = None" by simp
  show same: "previous_or_current c f cur = cur" by (rule previous_absent[OF pm])
  fix x assume "cur = Some (Num (Fin x)) \<and> x \<noteq> 0"
  then show "percent_change cur (previous_or_current c f cur) = Fin 0"
    by (simp add: previous_absent[OF pm] percent_change_def jsub_def)
next
  fix c :: comparisons and f cur
  assume c: "comparisons b = Some c"
  with assms have pm: "previousMonth c = None" by simp
  assume "\<not> (\<exists>x. cur = Some (Num (Fin x)) \<and> x \<noteq> 0)"
  then have "percent_change cur cur = NaN" by (rule percent_change_self_other)
  then show "percent_change cur (previous_or_current c f cur) = NaN"
    by (simp only: previous_absent[OF pm])
next
  assume "usage b \<noteq> None"
  from detectAnomalies_parts[OF this] show "\<exists>as. detectAnomalies b = Inr as" by blast
next
  fix as assume as: "detectAnomalies b = Inr as"
  then have ub: "usage b \<noteq> None" by (rule detectAnomalies_Inr_usage)
  from detectAnomalies_parts[OF ub] obtain us cs ps where
    d: "detectAnomalies b = Inr (prioritizeAnomalies (us @ cs @ ps))"
    and us: "if comparisons b \<noteq> None then detectUsageAnomalies b = Inr us else us = []"
    and cs: "if charges b \<noteq> None \<and> comparisons b \<noteq> None
               then detectCostAnomalies b = Inr cs else cs = []"
    and ps: "detectPatternAnomalies b = Inr ps" by blast
  have "us = []"
  proof (cases "comparisons b")
    case None then show ?thesis using us by simp
  next
    case (Some c)
    with assms have pm: "previousMonth c = None" by simp
    from ub obtain u where u: "usage b = Some u" by blast
    from detectUsageAnomalies_same[OF u Some previous_absent[OF pm]] us Some
    show ?thesis by simp
  qed
  moreover have "cs = []"
  proof (cases "comparisons b")
    case None then show ?thesis using cs by simp
  next
    case (Some c)
    with assms have pm: "previousMonth c = None" by simp
    show ?thesis
    proof (cases "charges b")
      case None then show ?thesis using cs by simp
    next
      case (Some ch)
      from detectCostAnomalies_same[OF Some \<open>comparisons b = Some c\<close> previous_absent[OF pm]]
        cs Some \<open>comparisons b = Some c\<close>
      show ?thesis by simp
    qed
  qed
  ultimately have "set as = set ps" using d as by (simp add: set_prioritizeAnomalies)
  then show "\<forall>a\<in>set as. atype a \<noteq> ''usage_anomaly'' \<and> atype a \<noteq> ''cost_anomaly''"
    using detectPatternAnomalies_type[OF ps] by auto
qed

theorem C3_no_previous_month_no_anomaly_witness:
  "(\<exists>c. comparisons first_bill = Some c \<and> previousMonth c = None) \<and>
   usage first_bill \<noteq> None \<and> (\<exists>as. detectAnomalies first_bill = Inr as)"
proof -
  have h: "comparisons first_bill = None \<or>
           (\<exists>c. comparisons first_bill = Some c \<and> previousMonth c = None)"
    by (simp add: first_bill_def)
  have u: "usage first_bill \<noteq> None" by (simp add: first_bill_def)
  from C3_no_previous_month_no_anomaly[OF h] u show ?thesis
    by (simp add: first_bill_def)
qed

text \<open>
  Claim C3 as stated fails in its account of the change: on the first bill of a vacant
  property the previous consumption defaults to the current one, which is 0, and the
  change is \<open>(0 - 0) / 0 * 100 = NaN\<close>, not 0. No anomaly is returned all the same.
\<close>

theorem C3_counterexample:
  "comparisons vacant_first_bill = Some no_previous \<and>
   previousMonth no_previous = None \<and>
   usage vacant_first_bill = Some vacant_usage \<and>
   vacant_usage ''totalKwh'' = Some (Num (Fin 0)) \<and>
   previous_or_current no_previous ''usage'' (vacant_usage ''totalKwh'') =
     vacant_usage ''totalKwh'' \<and>
   percent_change (vacant_usage ''totalKwh'')
     (previous_or_current no_previous ''usage'' (vacant_usage ''totalKwh'')) = NaN \<and>
   detectUsageAnomalies vacant_first_bill = Inr [] \<and>
   detectAnomalies vacant_first_bill = Inr []"
  by (simp add: vacant_first_bill_def no_previous_def vacant_usage_def
      previous_or_current_def jor_def percent_change_def jsub_def
      detectAnomalies_def detectUsageAnomalies_def detectPatternAnomalies_def
      usage_thresholds_def prioritizeAnomalies_def sort_by_def Let_def)

subsection \<open>A previous month of exactly zero\<close>

lemma previous_zero:
  "previousMonth c = Some p \<Longrightarrow> p f = Some (Num (Fin 0)) \<Longrightarrow> previous_or_current c f cur = cur"
  by (simp add: previous_or_current_def jor_def)

lemma percent_change_self_finite:
  "x \<noteq> 0 \<Longrightarrow> percent_change (Some (Num (Fin x))) (Some (Num (Fin x))) = Fin 0"
  by (simp add: percent_change_def jsub_def)

text \<open>
  Claim C10, as the code has it: for every bill record whose
  \<open>comparisons.previousMonth.usage\<close> is exactly 0, the detector takes the current
  consumption as the previous one and emits no usage anomaly, alone or through
  \<open>detectAnomalies\<close>; when the current consumption is a finite number other than 0, the
  divisor is that number and the change is 0. The same holds for
  \<open>comparisons.previousMonth.amount\<close>, the current amount and the cost anomaly.
  (A current value of 0 is outside the second part: see the counterexample.)
\<close>

theorem C10_zero_previous_uses_current:
  assumes "comparisons b = Some c" "previousMonth c = Some p"
  shows
  "(usage b = Some u \<and> p ''usage'' = Some (Num (Fin 0)) \<longrightarrow>
      previous_or_current c ''usage'' (u ''totalKwh'') = u ''totalKwh'' \<and>
      detectUsageAnomalies b = Inr [] \<and>
      (\<forall>as. detectAnomalies b = Inr as \<longrightarrow> (\<forall>a\<in>set as. atype a \<noteq> ''usage_anomaly'')) \<and>
      (\<forall>x. u ''totalKwh'' = Some (Num (Fin x)) \<and> x \<noteq> 0 \<longrightarrow>
         toNumber (previous_or_current c ''usage'' (u ''totalKwh'')) = Fin x \<and>
         percent_change (u ''totalKwh'') (previous_or_current c ''usage'' (u ''totalKwh''))
           = Fin 0)) \<and>
   (charges b = Some ch \<and> p ''amount'' = Some (Num (Fin 0)) \<longrightarrow>
      previous_or_current c ''amount'' (ch ''totalAmount'') = ch ''totalAmount'' \<and>
      detectCostAnomalies b = Inr [] \<and>
      (\<forall>as. detectAnomalies b = Inr as \<longrightarrow> (\<forall>a\<in>set as. atype a \<noteq> ''cost_anomaly'')) \<and>
      (\<forall>x. ch ''totalAmount'' = Some (Num (Fin x)) \<and> x \<noteq> 0 \<longrightarrow>
         toNumber (previous_or_current c ''amount'' (ch ''totalAmount'')) = Fin x \<and>
         percent_change (ch ''totalAmount'')
           (previous_or_current c ''amount'' (ch ''totalAmount'')) = Fin 0))"
proof (intro conjI impI)
  assume h: "usage b = Some u \<and> p ''usage'' = Some (Num (Fin 0))"
  then have u: "usage b = Some u" and z: "p ''usage'' = Some (Num (Fin 0))" by simp_all
  show same: "previous_or_current c ''usage'' (u ''totalKwh'') = u ''totalKwh''"
    by (rule previous_zero[OF assms(2) z])
  show none: "detectUsageAnomalies b = Inr []"
    by (rule detectUsageAnomalies_same[OF u assms(1) same])
  show "\<forall>as. detectAnomalies b = Inr as \<longrightarrow> (\<forall>a\<in>set as. atype a \<noteq> ''usage_anomaly'')"
  proof (intro allI impI)
    fix as assume as: "detectAnomalies b = Inr as"
    from u have "usage b \<noteq> None" by simp
    from detectAnomalies_parts[OF this] obtain us cs ps where
      d: "detectAnomalies b = Inr (prioritizeAnomalies (us @ cs @ ps))"
      and us: "if comparisons b \<noteq> None then detectUsageAnomalies b = Inr us else us = []"
      and cs: "if charges b \<noteq> None \<and> comparisons b \<noteq> None
               then detectCostAnomalies b = Inr cs else cs = []"
      and ps: "detectPatternAnomalies b = Inr ps" by blast
    have "us = []" using us none assms(1) by simp
    then have "set as = set cs \<union> set ps" using d as by (simp add: set_prioritizeAnomalies)
    moreover have "\<forall>a\<in>set cs. atype a = ''cost_anomaly''"
      using cs detectCostAnomalies_type by (auto split: if_splits)
    ultimately show "\<forall>a\<in>set as. atype a \<noteq> ''usage_anomaly''"
      using detectPatternAnomalies_type[OF ps] by auto
  qed
  show "\<forall>x. u ''totalKwh'' = Some (Num (Fin x)) \<and> x \<noteq> 0 \<longrightarrow>
         toNumber (previous_or_current c ''usage'' (u ''totalKwh'')) = Fin x \<and>
         percent_change (u ''totalKwh'') (previous_or_current c ''usage'' (u ''totalKwh''))
           = Fin 0"
    by (simp add: previous_zero[OF assms(2) z] percent_change_self_finite)
next
  assume h: "charges b = Some ch \<and> p ''amount'' = Some (Num (Fin 0))"
  then have ch: "charges b = Some ch" and z: "p ''amount'' = Some (Num (Fin 0))" by simp_all
  show same: "previous_or_current c ''amount'' (ch ''totalAmount'') = ch ''totalAmount''"
    by (rule previous_zero[OF assms(2) z])
  show none: "detectCostAnomalies b = Inr []"
    by (rule detectCostAnomalies_same[OF ch assms(1) same])
  show "\<forall>as. detectAnomalies b = Inr as \<longrightarrow> (\<forall>a\<in>set as. atype a \<noteq> ''cost_anomaly'')"
  proof (intro allI impI)
    fix as assume as: "detectAnomalies b = Inr as"
    then have "usage b \<noteq> None" by (rule detectAnomalies_Inr_usage)
    from detectAnomalies_parts[OF this] obtain us cs ps where
      d: "detectAnomalies b = Inr (prioritizeAnomalies (us @ cs @ ps))"
      and us: "if comparisons b \<noteq> None then detectUsageAnomalies b = Inr us else us = []"
      and cs: "if charges b \<noteq> None \<and> comparisons b \<noteq> None
               then detectCostAnomalies b = Inr cs else cs = []"
      and ps: "detectPatternAnomalies b = Inr ps" by blast
    have "cs = []" using cs none assms(1) ch by simp
    then have "set as = set us \<union> set ps" using d as by (simp add: set_prioritizeAnomalies)
    moreover have "\<forall>a\<in>set us. atype a = ''usage_anomaly''"
      using us detectUsageAnomalies_type by (auto split: if_splits)
    ultimately show "\<forall>a\<in>set as. atype a \<noteq> ''cost_anomaly''"
      using detectPatternAnomalies_type[OF ps] by auto
  qed
  show "\<forall>x. ch ''totalAmount'' = Some (Num (Fin x)) \<and> x \<noteq> 0 \<longrightarrow>
         toNumber (previous_or_current c ''amount'' (ch ''totalAmount'')) = Fin x \<and>
         percent_change (ch ''totalAmount'')
           (previous_or_current c ''amount'' (ch ''totalAmount'')) = Fin 0"
    by (simp add: previous_zero[OF assms(2) z] percent_change_self_finite)
qed

theorem C10_zero_previous_uses_current_witness:
  "comparisons moved_in_bill = Some vacant_comparisons \<and>
   previousMonth vacant_comparisons = Some vacant_previous \<and>
   usage moved_in_bill = Some moved_in_usage \<and>
   vacant_previous ''usage'' = Some (Num (Fin 0)) \<and>
   charges moved_in_bill = Some moved_in_charges \<and>
   vacant_previous ''amount'' = Some (Num (Fin 0)) \<and>
   moved_in_usage ''totalKwh'' = Some (Num (Fin 847)) \<and>
   moved_in_charges ''totalAmount'' = Some (Num (Fin 190)) \<and>
   detectUsageAnomalies moved_in_bill = Inr [] \<and>
   detectCostAnomalies moved_in_bill = Inr [] \<and>
   toNumber (previous_or_current vacant_comparisons ''usage'' (moved_in_usage ''totalKwh''))
     = Fin 847 \<and>
   percent_change (moved_in_usage ''totalKwh'')
     (previous_or_current vacant_comparisons ''usage'' (moved_in_usage ''totalKwh'')) = Fin 0 \<and>
   percent_change (moved_in_charges ''totalAmount'')
     (previous_or_current vacant_comparisons ''amount'' (moved_in_charges ''totalAmount''))
       = Fin 0"
proof -
  have h1: "comparisons moved_in_bill = Some vacant_comparisons"
    by (simp add: moved_in_bill_def)
  have h2: "previousMonth vacant_comparisons = Some vacant_previous"
    by (simp add: vacant_comparisons_def)
  have h3: "usage moved_in_bill = Some moved_in_usage \<and>
            vacant_previous ''usage'' = Some (Num (Fin 0))"
    by (simp add: moved_in_bill_def vacant_previous_def)
  have h4: "charges moved_in_bill = Some moved_in_charges \<and>
            vacant_previous ''amount'' = Some (Num (Fin 0))"
    by (simp add: moved_in_bill_def vacant_previous_def)
  have h5: "moved_in_usage ''totalKwh'' = Some (Num (Fin 847))"
    by (simp add: moved_in_usage_def)
  have h6: "moved_in_charges ''totalAmount'' = Some (Num (Fin 190))"
    by (simp add: moved_in_charges_def)
  from C10_zero_previous_uses_current[OF h1 h2, of moved_in_usage moved_in_charges]
    h1 h2 h3 h4 h5 h6
  show ?thesis by (simp add: percent_change_self_finite)
qed

text \<open>
  Claim C10 as stated fails when the current value is 0 too: on the vacant property the
  previous consumption is 0, the detector takes the current one for it, which is 0 as
  well, so the divisor is 0 and the change is \<open>0/0 = NaN\<close>, not 0.
\<close>

theorem C10_counterexample:
  "usage vacant_bill = Some vacant_usage \<and>
   comparisons vacant_bill = Some vacant_comparisons \<and>
   previousMonth vacant_comparisons = Some vacant_previous \<and>
   vacant_previous ''usage'' = Some (Num (Fin 0)) \<and>
   toNumber (previous_or_current vacant_comparisons ''usage'' (vacant_usage ''totalKwh''))
     = Fin 0 \<and>
   percent_change (vacant_usage ''totalKwh'')
     (previous_or_current vacant_comparisons ''usage'' (vacant_usage ''totalKwh'')) = NaN"
  by (simp add: vacant_bill_def vacant_usage_def vacant_comparisons_def vacant_previous_def
      previous_or_current_def jor_def percent_change_def jsub_def)

section \<open>Properties of the predictive analyzer\<close>

lemma calculateTrend_default:
  "comparisons b = None \<or> (\<exists>c. comparisons b = Some c \<and> previousMonth c = None)
   \<Longrightarrow> calculateTrend b = Inr (Fin 0.02)"
  by (auto simp: calculateTrend_def)

lemma calculateTrend_previous:
  "comparisons b = Some c \<Longrightarrow> previousMonth c = Some p \<Longrightarrow> charges b = Some ch \<Longrightarrow>
   calculateTrend b =
     Inr (jdiv (jsub (toNumber (ch ''totalAmount'')) (toNumber (p ''amount'')))
               (toNumber (p ''amount'')))"
  by (simp add: calculateTrend_def Let_def)

text \<open>
  Claim C4: the trend is exactly 0.02 when \<open>comparisons\<close> or its \<open>previousMonth\<close> is
  missing; with a previous month (and the charges it is compared with) it is
  \<open>(current - previous) / previous\<close>, which for finite amounts and a previous amount
  other than 0 is that rational number. For a record with \<open>charges.totalAmount = 200\<close>
  and \<open>comparisons.previousMonth.amount = 100\<close> the trend is 1, and \<open>predictNextMonth\<close>
  (which reads \<open>usage.totalKwh\<close> too, so the record has a \<open>usage\<close> sub-object) returns
  the amount 400 with confidence 0.85.
\<close>

theorem C4_trend_and_next_month:
  "(comparisons b = None \<or> (\<exists>c. comparisons b = Some c \<and> previousMonth c = None)
      \<longrightarrow> calculateTrend b = Inr (Fin 0.02)) \<and>
   (comparisons b = Some c \<and> previousMonth c = Some p \<and> charges b = Some ch \<longrightarrow>
      calculateTrend b =
        Inr (jdiv (jsub (toNumber (ch ''totalAmount'')) (toNumber (p ''amount'')))
                  (toNumber (p ''amount''))) \<and>
      (\<forall>x y. ch ''totalAmount'' = Some (Num (Fin x)) \<and> p ''amount'' = Some (Num (Fin y)) \<and>
          y \<noteq> 0 \<longrightarrow> calculateTrend b = Inr (Fin ((x - y) / y))) \<and>
      (ch ''totalAmount'' = Some (Num (Fin 200)) \<and> p ''amount'' = Some (Num (Fin 100)) \<longrightarrow>
         calculateTrend b = Inr (Fin 1) \<and>
         (usage b \<noteq> None \<longrightarrow>
            (\<exists>nm. predictNextMonth b = Inr nm \<and> nm_amount nm = Fin 400 \<and>
                  nm_confidence nm = Fin 0.85))))"
proof (intro conjI impI)
  assume "comparisons b = None \<or> (\<exists>c. comparisons b = Some c \<and> previousMonth c = None)"
  then show "calculateTrend b = Inr (Fin 0.02)" by (rule calculateTrend_default)
next
  assume h: "comparisons b = Some c \<and> previousMonth c = Some p \<and> charges b = Some ch"
  then show t: "calculateTrend b =
        Inr (jdiv (jsub (toNumber (ch ''totalAmount'')) (toNumber (p ''amount'')))
                  (toNumber (p ''amount'')))"
    by (simp add: calculateTrend_previous)
  show "\<forall>x y. ch ''totalAmount'' = Some (Num (Fin x)) \<and> p ''amount'' = Some (Num (Fin y)) \<and>
          y \<noteq> 0 \<longrightarrow> calculateTrend b = Inr (Fin ((x - y) / y))"
    by (simp add: t jsub_def)
  assume s: "ch ''totalAmount'' = Some (Num (Fin 200)) \<and> p ''amount'' = Some (Num (Fin 100))"
  show t1: "calculateTrend b = Inr (Fin 1)"
    using s by (simp add: t jsub_def)
  assume "usage b \<noteq> None"
  then obtain u where u: "usage b = Some u" by blast
  show "\<exists>nm. predictNextMonth b = Inr nm \<and> nm_amount nm = Fin 400 \<and>
                  nm_confidence nm = Fin 0.85"
    using h s u by (simp add: predictNextMonth_def round_cents_def t1 floor_eq_iff)
qed

theorem C4_trend_and_next_month_witness:
  "comparisons scenario_bill = Some scenario_comparisons \<and>
   previousMonth scenario_comparisons = Some scenario_previous \<and>
   charges scenario_bill = Some scenario_charges \<and>
   scenario_charges ''totalAmount'' = Some (Num (Fin 200)) \<and>
   scenario_previous ''amount'' = Some (Num (Fin 100)) \<and>
   usage scenario_bill \<noteq> None \<and>
   calculateTrend scenario_bill = Inr (Fin 1) \<and>
   (\<exists>nm. predictNextMonth scenario_bill = Inr nm \<and> nm_amount nm = Fin 400 \<and>
         nm_confidence nm = Fin 0.85)"
  using C4_trend_and_next_month
          [of scenario_bill scenario_comparisons scenario_previous scenario_charges]
  by (simp add: scenario_bill_def scenario_comparisons_def scenario_previous_def
        scenario_charges_def jsub_def)

section \<open>Properties of the recommendation engine\<close>

text \<open>
  Claim C9: for every predictions object whose \<open>nextMonth.amount\<close> is a finite number
  that is not negative, the gate \<open>amount > amount * 1.1\<close> is false, and no recommendation
  that \<open>generatePredictiveRecommendations\<close> returns has the title
  \<open>Prepare for Higher Bills\<close>.
\<close>

theorem C9_budgeting_never_emitted:
  assumes "nextMonth p = Some nm" "nm_amount nm = Fin a" "0 \<le> a"
  shows "\<not> jgt (nm_amount nm) (jmul (nm_amount nm) (Fin 1.1)) \<and>
         (\<forall>r\<in>set (generatePredictiveRecommendations p).
            rec_title r \<noteq> ''Prepare for Higher Bills'')"
proof
  show g: "\<not> jgt (nm_amount nm) (jmul (nm_amount nm) (Fin 1.1))"
    using assms(2,3) by simp
  show "\<forall>r\<in>set (generatePredictiveRecommendations p).
            rec_title r \<noteq> ''Prepare for Higher Bills''"
    using g assms(1)
    by (auto simp: generatePredictiveRecommendations_def Let_def split: option.splits if_splits)
qed

theorem C9_budgeting_never_emitted_witness:
  "nextMonth scenario_predictions = Some scenario_next_month \<and>
   nm_amount scenario_next_month = Fin 400 \<and> (0::rat) \<le> 400 \<and>
   \<not> jgt (nm_amount scenario_next_month) (jmul (nm_amount scenario_next_month) (Fin 1.1)) \<and>
   map rec_title (generatePredictiveRecommendations scenario_predictions) =
     [''Seasonal Usage Preparation'']"
proof -
  have h1: "nextMonth scenario_predictions = Some scenario_next_month"
    by (simp add: scenario_predictions_def)
  have h2: "nm_amount scenario_next_month = Fin 400"
    by (simp add: scenario_next_month_def)
  have h3: "(0::rat) \<le> 400" by simp
  have e: "map rec_title (generatePredictiveRecommendations scenario_predictions) =
     [''Seasonal Usage Preparation'']"
    by (simp add: generatePredictiveRecommendations_def scenario_predictions_def
          scenario_next_month_def Let_def)
  from C9_budgeting_never_emitted[OF h1 h2 h3] h1 h2 h3 e show ?thesis by simp
qed

lemma scenario_detect: "detectAnomalies scenario_bill = Inr scenario_anomalies"
  by (simp add: detectAnomalies_def scenario_bill_def scenario_usage_def scenario_charges_def
      scenario_comparisons_def scenario_previous_def detectUsageAnomalies_def
      detectCostAnomalies_def detectPatternAnomalies_def previous_or_current_def jor_def
      percent_change_def jsub_def usage_thresholds_def cost_thresholds_def getSeverity_def
      Let_def prioritizeAnomalies_def sort_by_def severityOrder_def scenario_anomalies_def)

lemma scenario_predict: "generatePredictions 0 scenario_bill = Inr scenario_predictions"
  by (simp add: generatePredictions_def predictNextMonth_def predictQuarterly_def
      predictAnnual_def predictSeasonal_def calculateTrend_def getSeasonalFactor_def
      seasonalFactors_def round_cents_def scenario_bill_def scenario_usage_def
      scenario_charges_def scenario_comparisons_def scenario_previous_def jsub_def Let_def
      floor_eq_iff scenario_predictions_def scenario_next_month_def)

lemma scenario_immediate:
  "map_sum id (priorities_and_savings \<circ> immediate)
     (generateRecommendations scenario_bill scenario_anomalies (Some scenario_predictions))
     = Inr [(''severe'', Fin 12.5), (''severe'', Fin 25)]"
  by code_simp

text \<open>
  Claim C6 on the scenario's bill (150 kWh after 100 kWh, an amount of 200 after 100):
  the detector returns a severe usage anomaly of impact 50 and a severe cost anomaly of
  impact 100, and \<open>generateRecommendations\<close> returns them in the \<open>immediate\<close> bucket in
  that order, with the same priority \<open>severe\<close> and the savings 12.5 before 25. The
  savings ascend within one priority: \<open>priorityOrder\<close> has no entry for a severity, so
  the comparison is \<open>undefined - undefined = NaN\<close> and the sort moves nothing.
\<close>

theorem C6_immediate_bucket_not_sorted:
  "detectAnomalies scenario_bill = Inr scenario_anomalies \<and>
   generatePredictions 0 scenario_bill = Inr scenario_predictions \<and>
   map_sum id (priorities_and_savings \<circ> immediate)
     (generateRecommendations scenario_bill scenario_anomalies (Some scenario_predictions))
     = Inr [(''severe'', Fin 12.5), (''severe'', Fin 25)] \<and>
   toNumber (priorityOrder ''severe'') = NaN"
  by (simp add: scenario_detect scenario_predict scenario_immediate priorityOrder_def)

section \<open>Properties of the pattern analyzer\<close>

lemma jdiv_zero_not_finite: "jdiv x (Fin 0) \<noteq> Fin y"
  by (cases x) (simp_all add: signed_inf_def)

lemma jmul_not_finite: "(\<forall>y. x \<noteq> Fin y) \<Longrightarrow> jmul x (Fin 100) \<noteq> Fin z"
  by (cases x) (simp_all add: signed_inf_def)

text \<open>
  With a consumption of 0 the analysis divides by it without a test: whatever the other
  fields are, neither ratio is a finite number (so neither is 0), and the cost per kWh is
  not finite either. Only the daily average is 0.
\<close>

lemma zero_usage_ratios:
  assumes "usage b = Some u" "u ''totalKwh'' = Some (Num (Fin 0))"
    "analyzeUsagePatterns b = Inr r"
  shows "peakRatio r \<noteq> Fin x \<and> offPeakRatio r \<noteq> Fin y \<and> dailyAverage r = Fin 0"
  using assms
  by (auto simp: analyzeUsagePatterns_def Let_def jdiv_zero_not_finite jmul_not_finite
      split: sum.splits)

lemma zero_usage_efficiency:
  assumes "usage b = Some u" "u ''totalKwh'' = Some (Num (Fin 0))" "charges b = Some ch"
  shows "\<exists>e. calculateEfficiency b = Inr (EffNum e) \<and> (\<forall>x. e \<noteq> Fin x)"
  using assms by (simp add: calculateEfficiency_def jdiv_zero_not_finite)

text \<open>
  Claim C5 on the vacant property (a consumption of 0 kWh, a bill of 24.99): the
  usage-pattern analysis and the efficiency computation return without throwing, but
  the peak ratio and the off-peak ratio are \<open>NaN\<close> (\<open>0/0\<close>) and the efficiency is
  \<open>Infinity\<close> (\<open>24.99/0\<close>), not neutral values such as 0.
\<close>

theorem C5_zero_usage_gives_nan:
  "analyzeUsagePatterns vacant_bill =
     Inr \<lparr>totalUsage = Some (Num (Fin 0)), peakRatio = NaN, offPeakRatio = NaN,
          dailyAverage = Fin 0, up_efficiency = EffNum PInf, up_trend = NaN,
          classification = ''low'', up_recommendations = []\<rparr> \<and>
   calculateEfficiency vacant_bill = Inr (EffNum PInf)"
  by (simp add: analyzeUsagePatterns_def calculateEfficiency_def calculateUsageTrend_def
      vacant_bill_def vacant_usage_def vacant_comparisons_def vacant_previous_def
      jor_def jsub_def Let_def classifyUsagePattern_def jlt_def
      getUsagePatternRecommendations_def signed_inf_def)

section \<open>Properties of the normalisation\<close>

lemma map_add_self: "m ++ m = m"
  by (rule ext) (simp add: map_add_def split: option.splits)

lemma spread_idem: "spread (Some m) (Some (spread (Some m) d)) = spread (Some m) d"
  by (simp add: spread_def map_add_self)

lemma spread_comparisons_idem:
  "spread_comparisons (Some m) (Some (spread_comparisons (Some m) d)) =
   spread_comparisons (Some m) d"
  by (cases d) (auto simp: spread_comparisons_def split: option.splits)

lemma fill_idem: "fillMissingData (fillMissingData r) = fillMissingData r"
  by (simp add: fillMissingData_def generateMockStructuredData_def spread_idem
      spread_comparisons_idem)

lemma or_empty_idem: "or_empty (or_empty x) = or_empty x"
  by (cases x) (simp_all add: or_empty_def)

lemma or_empty_Some_eq: "or_empty (Some m) = Some m"
  by (simp add: or_empty_def)

lemma or_empty_Some: "\<exists>m. or_empty x = Some m"
  by (cases x) (simp_all add: or_empty_def)

lemma validate_fields:
  "charges (validateAndEnhanceData d) = or_empty (charges d)"
  "usage (validateAndEnhanceData d) = or_empty (usage d)"
  "accountInfo (validateAndEnhanceData d) = or_empty (accountInfo d)"
  "billingPeriod (validateAndEnhanceData d) = or_empty (billingPeriod d)"
  "comparisons (validateAndEnhanceData d) = comparisons d"
  by (simp_all add: validateAndEnhanceData_def Let_def)


lemma validate_char:
  assumes "or_empty (charges d) = Some ch" "or_empty (usage d) = Some u"
  shows "validateAndEnhanceData d =
    d\<lparr>accountInfo := or_empty (accountInfo d),
      charges := Some ch,
      usage := Some u,
      billingPeriod := or_empty (billingPeriod d),
      rates := (if truthy (u ''totalKwh'') \<and> truthy (ch ''energyCharges'')
                then Some [''energyRate'' \<mapsto>
                            Num (jdiv (toNumber (ch ''energyCharges''))
                                      (toNumber (u ''totalKwh'')))]
                else rates d),
      validationWarnings :=
        (if truthy (ch ''totalAmount'') \<and>
            jgt (jabs (jsub (jadd (jadd (jadd (jadd (or_zero (ch ''baseCharge''))
                                                    (or_zero (ch ''energyCharges'')))
                                              (or_zero (ch ''deliveryCharges'')))
                                        (or_zero (ch ''taxes'')))
                                  (or_zero (ch ''fees'')))
                            (toNumber (ch ''totalAmount'')))) (Fin 5)
         then Some [''Total amount calculation discrepancy detected'']
         else validationWarnings d)\<rparr>"
  using assms by (simp add: validateAndEnhanceData_def Let_def)

lemma validate_idem:
  "validateAndEnhanceData (validateAndEnhanceData r) = validateAndEnhanceData r"
proof -
  let ?v = "validateAndEnhanceData r"
  obtain ch where ch: "or_empty (charges r) = Some ch" using or_empty_Some by blast
  obtain u where u: "or_empty (usage r) = Some u" using or_empty_Some by blast
  have ch': "or_empty (charges ?v) = Some ch"
    by (simp add: validate_fields ch or_empty_Some_eq)
  have u': "or_empty (usage ?v) = Some u"
    by (simp add: validate_fields u or_empty_Some_eq)
  have v: "?v = r\<lparr>accountInfo := or_empty (accountInfo r),
      charges := Some ch,
      usage := Some u,
      billingPeriod := or_empty (billingPeriod r),
      rates := (if truthy (u ''totalKwh'') \<and> truthy (ch ''energyCharges'')
                then Some [''energyRate'' \<mapsto>
                            Num (jdiv (toNumber (ch ''energyCharges''))
                                      (toNumber (u ''totalKwh'')))]
                else rates r),
      validationWarnings :=
        (if truthy (ch ''totalAmount'') \<and>
            jgt (jabs (jsub (jadd (jadd (jadd (jadd (or_zero (ch ''baseCharge''))
                                                    (or_zero (ch ''energyCharges'')))
                                              (or_zero (ch ''deliveryCharges'')))
                                        (or_zero (ch ''taxes'')))
                                  (or_zero (ch ''fees'')))
                            (toNumber (ch ''totalAmount'')))) (Fin 5)
         then Some [''Total amount calculation discrepancy detected'']
         else validationWarnings r)\<rparr>" (is "_ = ?rhs")
    by (rule validate_char[OF ch u])
  have "validateAndEnhanceData ?v = validateAndEnhanceData ?rhs" by (simp only: v[symmetric])
  also have "\<dots> = ?rhs"
    by (subst validate_char[of _ ch u]) (simp_all add: or_empty_idem or_empty_Some_eq)
  finally show ?thesis by (simp only: v[symmetric])
qed


lemma fill_fields:
  "accountInfo (fillMissingData d) = Some (spread (Some mock_accountInfo) (accountInfo d))"
  "billingPeriod (fillMissingData d) = Some (spread (Some mock_billingPeriod) (billingPeriod d))"
  "charges (fillMissingData d) = Some (spread (Some mock_charges) (charges d))"
  "usage (fillMissingData d) = Some (spread (Some mock_usage) (usage d))"
  "rates (fillMissingData d) = Some (spread (Some mock_rates) (rates d))"
  "comparisons (fillMissingData d) =
     Some (spread_comparisons (Some mock_comparisons) (comparisons d))"
  "validationWarnings (fillMissingData d) = None"
  "bill.more (fillMissingData d) = ()"
  by (simp_all add: fillMissingData_def generateMockStructuredData_def)

lemma validate_rates:
  assumes "or_empty (charges d) = Some ch" "or_empty (usage d) = Some u"
  shows "rates (validateAndEnhanceData d) =
     (if truthy (u ''totalKwh'') \<and> truthy (ch ''energyCharges'')
      then Some [''energyRate'' \<mapsto>
                  Num (jdiv (toNumber (ch ''energyCharges'')) (toNumber (u ''totalKwh'')))]
      else rates d)"
  by (simp add: validate_char[OF assms])

lemma validate_warnings:
  assumes "or_empty (charges d) = Some ch" "or_empty (usage d) = Some u"
  shows "validationWarnings (validateAndEnhanceData d) =
        (if truthy (ch ''totalAmount'') \<and>
            jgt (jabs (jsub (jadd (jadd (jadd (jadd (or_zero (ch ''baseCharge''))
                                                    (or_zero (ch ''energyCharges'')))
                                              (or_zero (ch ''deliveryCharges'')))
                                        (or_zero (ch ''taxes'')))
                                  (or_zero (ch ''fees'')))
                            (toNumber (ch ''totalAmount'')))) (Fin 5)
         then Some [''Total amount calculation discrepancy detected'']
         else validationWarnings d)"
  by (simp add: validate_char[OF assms])

lemma normalize_idem: "normalize (normalize r) = normalize r"
proof -
  let ?d = "fillMissingData r"
  let ?v = "validateAndEnhanceData ?d"
  let ?d2 = "fillMissingData ?v"
  obtain ch where ch: "or_empty (charges ?d) = Some ch" using or_empty_Some by blast
  obtain u where u: "or_empty (usage ?d) = Some u" using or_empty_Some by blast
  have same: "charges ?d2 = charges ?d" "usage ?d2 = usage ?d"
    "accountInfo ?d2 = accountInfo ?d" "billingPeriod ?d2 = billingPeriod ?d"
    "comparisons ?d2 = comparisons ?d" "validationWarnings ?d2 = validationWarnings ?d"
    by (simp_all add: fill_fields validate_fields or_empty_Some_eq spread_idem
          spread_comparisons_idem)
  have ch2: "or_empty (charges ?d2) = Some ch" using ch by (simp only: same)
  have u2: "or_empty (usage ?d2) = Some u" using u by (simp only: same)
  have d2r: "rates ?d2 = Some (spread (Some mock_rates) (rates ?v))"
    by (simp add: fill_fields)
  have dr: "rates ?d = Some (spread (Some mock_rates) (rates r))"
    by (simp add: fill_fields)
  have r: "rates (validateAndEnhanceData ?d2) = rates ?v"
  proof (cases "truthy (u ''totalKwh'') \<and> truthy (ch ''energyCharges'')")
    case True
    then show ?thesis
      using validate_rates[OF ch u] validate_rates[OF ch2 u2] by simp
  next
    case False
    then have "rates ?v = rates ?d" using validate_rates[OF ch u] by auto
    moreover from False have "rates (validateAndEnhanceData ?d2) = rates ?d2"
      using validate_rates[OF ch2 u2] by auto
    ultimately show ?thesis using d2r dr by (simp add: spread_idem)
  qed
  have w: "validationWarnings (validateAndEnhanceData ?d2) = validationWarnings ?v"
    using validate_warnings[OF ch u] validate_warnings[OF ch2 u2] same(6) by simp
  have "validateAndEnhanceData ?d2 = ?v"
  proof (rule bill.equality)
    show "rates (validateAndEnhanceData ?d2) = rates ?v" by (rule r)
    show "validationWarnings (validateAndEnhanceData ?d2) = validationWarnings ?v" by (rule w)
    show "accountInfo (validateAndEnhanceData ?d2) = accountInfo ?v"
      by (simp only: validate_fields same)
    show "billingPeriod (validateAndEnhanceData ?d2) = billingPeriod ?v"
      by (simp only: validate_fields same)
    show "charges (validateAndEnhanceData ?d2) = charges ?v"
      by (simp only: validate_fields same)
    show "usage (validateAndEnhanceData ?d2) = usage ?v"
      by (simp only: validate_fields same)
    show "comparisons (validateAndEnhanceData ?d2) = comparisons ?v"
      by (simp only: validate_fields same)
    show "bill.more (validateAndEnhanceData ?d2) = bill.more ?v"
      by simp
  qed
  then show ?thesis by (simp add: normalize_def)
qed

text \<open>
  Claim C8: the normalisation is idempotent. For every partial record \<open>r\<close>, filling the
  defaults a second time changes nothing, validating a second time changes nothing, and
  so does the normalisation the pipeline makes of both, the validation of the filled
  record.
\<close>

theorem C8_normalizer_idempotent:
  "fillMissingData (fillMissingData r) = fillMissingData r \<and>
   validateAndEnhanceData (validateAndEnhanceData r) = validateAndEnhanceData r \<and>
   normalize (normalize r) = normalize r"
  by (simp add: fill_idem validate_idem normalize_idem)

theorem C8_normalizer_idempotent_witness:
  "fillMissingData (fillMissingData boundary_bill) = fillMissingData boundary_bill \<and>
   validateAndEnhanceData (validateAndEnhanceData boundary_bill) =
     validateAndEnhanceData boundary_bill \<and>
   normalize (normalize boundary_bill) = normalize boundary_bill \<and>
   charges (fillMissingData boundary_bill) =
     Some (mock_charges(''totalAmount'' \<mapsto> Num (Fin 150)))"
  using C8_normalizer_idempotent[of boundary_bill]
  by (simp add: fillMissingData_def generateMockStructuredData_def spread_def boundary_bill_def)

section \<open>Properties of the batch upload\<close>

lemma process_files_map:
  "process_files s files acc = acc @ map (process_file s) files"
  by (induction files arbitrary: acc) simp_all

lemma filename_process_file: "filename (process_file s f) = originalname f"
  by (simp add: process_file_def split: sum.splits)

lemma process_file_not_success:
  "\<not> success (process_file s f) \<Longrightarrow> \<exists>msg. process_file s f = Failed (originalname f) msg"
  by (auto simp: process_file_def split: sum.splits)

lemma process_file_success:
  "success (process_file s f) \<longleftrightarrow>
     (\<exists>d a p r t. processDocument s f = Inr d \<and> svc_detectAnomalies s d = Inr a \<and>
        svc_generatePredictions s d = Inr p \<and> svc_generateRecommendations s d a p = Inr r \<and>
        svc_analyzePatterns s d = Inr t)"
  by (auto simp: process_file_def split: sum.splits)

lemma process_file_throws:
  "processDocument s f = Inl msg \<Longrightarrow> process_file s f = Failed (originalname f) msg"
  "processDocument s f = Inr d \<Longrightarrow> svc_detectAnomalies s d = Inl msg \<Longrightarrow>
     process_file s f = Failed (originalname f) msg"
  "processDocument s f = Inr d \<Longrightarrow> svc_detectAnomalies s d = Inr a \<Longrightarrow>
   svc_generatePredictions s d = Inl msg \<Longrightarrow>
     process_file s f = Failed (originalname f) msg"
  "processDocument s f = Inr d \<Longrightarrow> svc_detectAnomalies s d = Inr a \<Longrightarrow>
   svc_generatePredictions s d = Inr p \<Longrightarrow> svc_generateRecommendations s d a p = Inl msg \<Longrightarrow>
     process_file s f = Failed (originalname f) msg"
  "processDocument s f = Inr d \<Longrightarrow> svc_detectAnomalies s d = Inr a \<Longrightarrow>
   svc_generatePredictions s d = Inr p \<Longrightarrow> svc_generateRecommendations s d a p = Inr r \<Longrightarrow>
   svc_analyzePatterns s d = Inl msg \<Longrightarrow>
     process_file s f = Failed (originalname f) msg"
  by (simp_all add: process_file_def)

text \<open>
  Claim C7: for every non-empty batch, the response lists one entry per file, in order,
  each computed from its own file alone (so a failure of one file leaves the entries of
  the others as they are), with the file's name; \<open>totalFiles\<close> is the number of files
  and \<open>successfulFiles\<close> the number of entries whose \<open>success\<close> is true. A file whose
  extraction throws a message gets the entry \<open>{filename, success: false, error}\<close> with
  that message; a file on which a later service throws gets such an entry too; and an
  entry is a success exactly when all five services returned.
\<close>

theorem C7_batch_partial_failure:
  assumes "files \<noteq> []"
  shows "advanced_upload s (Some files) =
           Json200 (map (process_file s) files) (length files)
                   (length (filter success (map (process_file s) files))) \<and>
         map filename (map (process_file s) files) = map originalname files \<and>
         (\<forall>f\<in>set files.
            (\<forall>msg. processDocument s f = Inl msg \<longrightarrow>
               process_file s f = Failed (originalname f) msg) \<and>
            (\<forall>d msg. processDocument s f = Inr d \<and>
               (svc_detectAnomalies s d = Inl msg \<or> svc_generatePredictions s d = Inl msg \<or>
                svc_analyzePatterns s d = Inl msg \<or>
                (\<exists>a p. svc_detectAnomalies s d = Inr a \<and> svc_generatePredictions s d = Inr p \<and>
                       svc_generateRecommendations s d a p = Inl msg))
               \<longrightarrow> (\<exists>msg'. process_file s f = Failed (originalname f) msg')) \<and>
            (\<not> success (process_file s f) \<longrightarrow>
               (\<exists>msg. process_file s f = Failed (originalname f) msg)) \<and>
            (success (process_file s f) \<longleftrightarrow>
               (\<exists>d a p r t. processDocument s f = Inr d \<and> svc_detectAnomalies s d = Inr a \<and>
                  svc_generatePredictions s d = Inr p \<and>
                  svc_generateRecommendations s d a p = Inr r \<and>
                  svc_analyzePatterns s d = Inr t)))"
proof (intro conjI ballI)
  show "advanced_upload s (Some files) =
           Json200 (map (process_file s) files) (length files)
                   (length (filter success (map (process_file s) files)))"
    using assms by (simp add: advanced_upload_def process_files_map)
  show "map filename (map (process_file s) files) = map originalname files"
    by (simp add: filename_process_file)
next
  fix f assume "f \<in> set files"
  show "\<forall>msg. processDocument s f = Inl msg \<longrightarrow>
               process_file s f = Failed (originalname f) msg"
    by (simp add: process_file_throws(1))
  show "\<not> success (process_file s f) \<longrightarrow>
               (\<exists>msg. process_file s f = Failed (originalname f) msg)"
    using process_file_not_success by blast
  show "success (process_file s f) \<longleftrightarrow>
               (\<exists>d a p r t. processDocument s f = Inr d \<and> svc_detectAnomalies s d = Inr a \<and>
                  svc_generatePredictions s d = Inr p \<and>
                  svc_generateRecommendations s d a p = Inr r \<and>
                  svc_analyzePatterns s d = Inr t)"
    by (rule process_file_success)
  then have "\<forall>d msg. processDocument s f = Inr d \<and>
               (svc_detectAnomalies s d = Inl msg \<or> svc_generatePredictions s d = Inl msg \<or>
                svc_analyzePatterns s d = Inl msg \<or>
                (\<exists>a p. svc_detectAnomalies s d = Inr a \<and> svc_generatePredictions s d = Inr p \<and>
                       svc_generateRecommendations s d a p = Inl msg))
               \<longrightarrow> \<not> success (process_file s f)"
    by auto
  then show "\<forall>d msg. processDocument s f = Inr d \<and>
               (svc_detectAnomalies s d = Inl msg \<or> svc_generatePredictions s d = Inl msg \<or>
                svc_analyzePatterns s d = Inl msg \<or>
                (\<exists>a p. svc_detectAnomalies s d = Inr a \<and> svc_generatePredictions s d = Inr p \<and>
                       svc_generateRecommendations s d a p = Inl msg))
               \<longrightarrow> (\<exists>msg'. process_file s f = Failed (originalname f) msg')"
    using process_file_not_success by blast
qed

theorem C7_batch_partial_failure_witness:
  "demo_files \<noteq> [] \<and>
   advanced_upload demo_services (Some demo_files) =
     Json200 [Succeeded ''january.pdf'' 10 11 12 23 10 (Fin 0.85),
              Failed ''notes.txt'' ''Failed to process document: Unsupported file type'',
              Failed ''empty.pdf'' ''Cannot read properties of undefined''] 3 1"
proof -
  have h: "demo_files \<noteq> []" by (simp add: demo_files_def)
  have e: "map (process_file demo_services) demo_files =
    [Succeeded ''january.pdf'' 10 11 12 23 10 (Fin 0.85),
              Failed ''notes.txt'' ''Failed to process document: Unsupported file type'',
              Failed ''empty.pdf'' ''Cannot read properties of undefined'']"
    by (simp add: demo_files_def demo_services_def process_file_def jor_def)
  from C7_batch_partial_failure[OF h, of demo_services] h show ?thesis
    by (simp add: e) (simp add: demo_files_def)
qed


end
